theory Spec2Isabelle
  imports Complex_Main
begin

section \<open>Order book: data model\<close>

text \<open>
  The order book of \<^verbatim>\<open>nautilus_trader.model.orderbook.book\<close>: the classes
  \<^verbatim>\<open>OrderBook\<close>, \<^verbatim>\<open>L1OrderBook\<close>, \<^verbatim>\<open>L2OrderBook\<close>, \<^verbatim>\<open>L3OrderBook\<close> and the
  \<^verbatim>\<open>OrderBookData\<close> family. A method that mutates \<^verbatim>\<open>self\<close> becomes a function
  from the book to the new book. A method that can raise returns a sum: \<open>Inr b\<close> is the
  book after a normal return, \<open>Inl (e, b)\<close> is the exception \<open>e\<close> together with the book as
  the raise leaves it (Python does not roll back what ran before the raise).

  Prices, volumes and sizes are exact decimal values (\<open>rat\<close>); the source carries them as
  C doubles, and the rounding of doubles is outside this model. Arguments are the typed,
  present objects of the Cython signatures: \<^verbatim>\<open>None\<close> in place of an order or a data item
  is rejected by \<^verbatim>\<open>Condition.not_none\<close> before anything is touched and is not an input
  of the model. The enums have the members the code names. A leading underscore of a
  private method is written \<open>p_\<close>.
\<close>

datatype OrderBookLevel = L1 | L2 | L3

datatype OrderSide = BUY | SELL

datatype OrderBookDeltaType = ADD | UPDATE | DELETE

datatype error = ValueError | NotImplementedError | TypeError | RuntimeError

text \<open>
  Modelled from the spec: \<^verbatim>\<open>Condition\<close> (\<^verbatim>\<open>nautilus_trader.core.correctness\<close>) is not
  among the sources. \<^verbatim>\<open>Condition.equal(a, b, ...)\<close> raises \<^verbatim>\<open>ValueError\<close> unless
  \<open>a = b\<close> (the docstrings of \<^verbatim>\<open>apply_delta\<close>, \<^verbatim>\<open>apply_deltas\<close> and
  \<^verbatim>\<open>apply_snapshot\<close> say so). \<^verbatim>\<open>Condition(a, b, ...)\<close> is a call of the class itself: it
  builds an instance of a class that only has static methods, compares nothing and raises
  nothing. Both return the error raised, if any.
\<close>

definition Condition_equal :: "'a \<Rightarrow> 'a \<Rightarrow> string \<Rightarrow> string \<Rightarrow> error option" where
  "Condition_equal a b a_name b_name = (if a = b then None else Some ValueError)"

definition Condition_call :: "'a \<Rightarrow> 'a \<Rightarrow> string \<Rightarrow> string \<Rightarrow> error option" where
  "Condition_call a b a_name b_name = None"

text \<open>
  Modelled from the spec: \<^verbatim>\<open>Order\<close>, \<^verbatim>\<open>Level\<close> and \<^verbatim>\<open>Ladder\<close>
  (\<^verbatim>\<open>nautilus_trader.model.orderbook\<close>) are not among the sources. An order is
  \<open>{id, side, price, volume}\<close>; a level is a price and the orders resting at it, in
  insertion order; a ladder is one side of the book, its levels sorted by price with the
  best price first (descending when \<open>reverse\<close>, the bids, ascending otherwise).
\<close>

record Order =
  price :: rat
  volume :: rat
  side :: OrderSide
  order_id :: string

record Level =
  level_price :: rat
  orders :: "Order list"

record Ladder =
  reverse :: bool
  ladder_price_precision :: nat
  ladder_size_precision :: nat
  levels :: "Level list"

text \<open>
  Modelled from the spec: \<^verbatim>\<open>Ladder(reverse, price_precision, size_precision)\<close>, a
  ladder without levels, and \<^verbatim>\<open>Level.volume()\<close>, the sum of the volumes of the
  level's orders.
\<close>

definition Ladder_init :: "bool \<Rightarrow> nat \<Rightarrow> nat \<Rightarrow> Ladder" where
  "Ladder_init rv pp sp =
     \<lparr>reverse = rv, ladder_price_precision = pp, ladder_size_precision = sp, levels = []\<rparr>"

definition Level_volume :: "Level \<Rightarrow> rat" where
  "Level_volume l = sum_list (map volume (orders l))"

text \<open>
  Modelled from the spec: \<^verbatim>\<open>Ladder.add\<close> and \<^verbatim>\<open>Ladder.update\<close> quantize their
  input, the price to the ladder's price precision and the volume to its size precision.
  The spec does not name the rounding: the nearest value with \<open>P\<close> decimals is
  taken, a tie going to the one whose last digit is even, as Python's \<^verbatim>\<open>round\<close> and
  its \<^verbatim>\<open>f"{x:.{P}f}"\<close> do. A value that has \<open>P\<close> decimals already is left as it is.
\<close>

definition round_half_even :: "rat \<Rightarrow> int" where
  "round_half_even x =
     (if x - of_int \<lfloor>x\<rfloor> < 1 / 2 then \<lfloor>x\<rfloor>
      else if 1 / 2 < x - of_int \<lfloor>x\<rfloor> then \<lfloor>x\<rfloor> + 1
      else if even \<lfloor>x\<rfloor> then \<lfloor>x\<rfloor>
      else \<lfloor>x\<rfloor> + 1)"

definition quantize :: "nat \<Rightarrow> rat \<Rightarrow> rat" where
  "quantize P x = of_int (round_half_even (x * 10 ^ P)) / 10 ^ P"

definition Ladder_quantize :: "Ladder \<Rightarrow> Order \<Rightarrow> Order" where
  "Ladder_quantize ld ord =
     ord\<lparr>price := quantize (ladder_price_precision ld) (price ord),
         volume := quantize (ladder_size_precision ld) (volume ord)\<rparr>"

text \<open>Modelled from the spec: \<^verbatim>\<open>Ladder.prices()\<close>, the set of the prices of the levels.\<close>

definition Ladder_prices :: "Ladder \<Rightarrow> rat set" where
  "Ladder_prices ld = level_price ` set (levels ld)"

text \<open>
  Modelled from the spec: \<^verbatim>\<open>Ladder.top()\<close>, the best level, or \<^verbatim>\<open>None\<close> for a side
  without levels.
\<close>

definition Ladder_top :: "Ladder \<Rightarrow> Level option" where
  "Ladder_top ld = (case levels ld of [] \<Rightarrow> None | l # _ \<Rightarrow> Some l)"

text \<open>
  Modelled from the spec: \<^verbatim>\<open>Ladder.add(order)\<close>. The order is quantized, and
  inserted by its price: it joins the level at its price, behind the orders already
  there; without such a level a new level holding the order is inserted at its place in
  the price order.
\<close>

fun add_at_price :: "Order \<Rightarrow> Level list \<Rightarrow> Level list" where
  "add_at_price ord [] = []"
| "add_at_price ord (l # ls) =
     (if level_price l = price ord then l\<lparr>orders := orders l @ [ord]\<rparr> # ls
      else l # add_at_price ord ls)"

fun insert_level :: "bool \<Rightarrow> Level \<Rightarrow> Level list \<Rightarrow> Level list" where
  "insert_level rv nl [] = [nl]"
| "insert_level rv nl (l # ls) =
     (if (if rv then level_price l < level_price nl else level_price nl < level_price l)
      then nl # l # ls
      else l # insert_level rv nl ls)"

definition Ladder_add :: "Ladder \<Rightarrow> Order \<Rightarrow> Ladder" where
  "Ladder_add ld ord =
     (let q = Ladder_quantize ld ord in
      if price q \<in> Ladder_prices ld
      then ld\<lparr>levels := add_at_price q (levels ld)\<rparr>
      else ld\<lparr>levels :=
             insert_level (reverse ld) \<lparr>level_price = price q, orders = [q]\<rparr> (levels ld)\<rparr>)"

text \<open>
  Modelled from the spec: \<^verbatim>\<open>Ladder.delete(order)\<close>. The order is located by its id,
  in the first level (best price first) that holds an order of that id; it is taken out
  of the level, and a level left without orders is taken out of the ladder. An id that no
  level holds changes nothing.
\<close>

definition holds_id :: "string \<Rightarrow> Level \<Rightarrow> bool" where
  "holds_id i l = (i \<in> order_id ` set (orders l))"

fun remove_order :: "string \<Rightarrow> Order list \<Rightarrow> Order list" where
  "remove_order i [] = []"
| "remove_order i (x # xs) = (if order_id x = i then xs else x # remove_order i xs)"

fun delete_from_levels :: "string \<Rightarrow> Level list \<Rightarrow> Level list" where
  "delete_from_levels i [] = []"
| "delete_from_levels i (l # ls) =
     (if holds_id i l
      then (if remove_order i (orders l) = [] then ls
            else l\<lparr>orders := remove_order i (orders l)\<rparr> # ls)
      else l # delete_from_levels i ls)"

definition Ladder_delete :: "Ladder \<Rightarrow> Order \<Rightarrow> Ladder" where
  "Ladder_delete ld ord = ld\<lparr>levels := delete_from_levels (order_id ord) (levels ld)\<rparr>"

text \<open>
  Modelled from the spec: \<^verbatim>\<open>Ladder.update(order)\<close>. The order is located by its id.
  At an unchanged price (the order's price, quantized, is the price of the level) the
  quantized order replaces the stored one in place; at a new price the stored order is
  deleted and the new one added. An id that no level holds is added:
  \<^verbatim>\<open>apply_snapshot\<close> relies on it (``when book has been cleared they're equivalent''),
  and so does \<^verbatim>\<open>L2OrderBook.update\<close>, which removes the level before it updates.
\<close>

fun find_level :: "string \<Rightarrow> Level list \<Rightarrow> Level option" where
  "find_level i [] = None"
| "find_level i (l # ls) = (if holds_id i l then Some l else find_level i ls)"

fun replace_order :: "Order \<Rightarrow> Order list \<Rightarrow> Order list" where
  "replace_order ord [] = []"
| "replace_order ord (x # xs) =
     (if order_id x = order_id ord then ord # xs else x # replace_order ord xs)"

fun update_in_levels :: "Order \<Rightarrow> Level list \<Rightarrow> Level list" where
  "update_in_levels ord [] = []"
| "update_in_levels ord (l # ls) =
     (if holds_id (order_id ord) l then l\<lparr>orders := replace_order ord (orders l)\<rparr> # ls
      else l # update_in_levels ord ls)"

definition Ladder_update :: "Ladder \<Rightarrow> Order \<Rightarrow> Ladder" where
  "Ladder_update ld ord =
     (case find_level (order_id ord) (levels ld) of
        None \<Rightarrow> Ladder_add ld ord
      | Some l \<Rightarrow>
          if level_price l = price (Ladder_quantize ld ord)
          then ld\<lparr>levels := update_in_levels (Ladder_quantize ld ord) (levels ld)\<rparr>
          else Ladder_add (Ladder_delete ld ord) ord)"

record OrderBook =
  instrument_id :: string
  level :: OrderBookLevel
  price_precision :: nat
  size_precision :: nat
  bids :: Ladder
  asks :: Ladder
  last_update_timestamp_ns :: int


section \<open>Order book: operations\<close>

text \<open>
  \<^verbatim>\<open>OrderBook.__init__\<close>, run by the three subclasses through \<^verbatim>\<open>super().__init__\<close>:
  a negative precision raises \<^verbatim>\<open>ValueError\<close>, otherwise both sides start empty and the
  timestamp at zero. (The base class cannot be instantiated directly.)
\<close>

definition OrderBook_init :: "string \<Rightarrow> OrderBookLevel \<Rightarrow> int \<Rightarrow> int \<Rightarrow> error + OrderBook" where
  "OrderBook_init iid lv pp sp =
     (if pp < 0 then Inl ValueError
      else if sp < 0 then Inl ValueError
      else Inr \<lparr>instrument_id = iid, level = lv,
                price_precision = nat pp, size_precision = nat sp,
                bids = Ladder_init True (nat pp) (nat sp),
                asks = Ladder_init False (nat pp) (nat sp),
                last_update_timestamp_ns = 0\<rparr>)"

text \<open>
  \<^verbatim>\<open>OrderBook.create(instrument, level)\<close>: the book of the class that the level names.
  The \<^verbatim>\<open>Instrument\<close> class is not among the sources; the call reads its id and its
  two precisions, which is all the record holds.
\<close>

record Instrument =
  instrument_ident :: string
  instrument_price_precision :: int
  instrument_size_precision :: int

definition OrderBook_create :: "Instrument \<Rightarrow> OrderBookLevel \<Rightarrow> error + OrderBook" where
  "OrderBook_create instrument lv =
     OrderBook_init (instrument_ident instrument) lv
       (instrument_price_precision instrument) (instrument_size_precision instrument)"

definition OrderBook_clear_bids :: "OrderBook \<Rightarrow> OrderBook" where
  "OrderBook_clear_bids b = b\<lparr>bids := Ladder_init True (price_precision b) (size_precision b)\<rparr>"

definition OrderBook_clear_asks :: "OrderBook \<Rightarrow> OrderBook" where
  "OrderBook_clear_asks b = b\<lparr>asks := Ladder_init False (price_precision b) (size_precision b)\<rparr>"

definition OrderBook_clear :: "OrderBook \<Rightarrow> OrderBook" where
  "OrderBook_clear b = OrderBook_clear_asks (OrderBook_clear_bids b)"

definition p_add :: "OrderBook \<Rightarrow> Order \<Rightarrow> OrderBook" where
  "p_add b ord =
     (case side ord of
        BUY \<Rightarrow> b\<lparr>bids := Ladder_add (bids b) ord\<rparr>
      | SELL \<Rightarrow> b\<lparr>asks := Ladder_add (asks b) ord\<rparr>)"

definition p_update :: "OrderBook \<Rightarrow> Order \<Rightarrow> OrderBook" where
  "p_update b ord =
     (case side ord of
        BUY \<Rightarrow> b\<lparr>bids := Ladder_update (bids b) ord\<rparr>
      | SELL \<Rightarrow> b\<lparr>asks := Ladder_update (asks b) ord\<rparr>)"

definition p_delete :: "OrderBook \<Rightarrow> Order \<Rightarrow> OrderBook" where
  "p_delete b ord =
     (case side ord of
        BUY \<Rightarrow> b\<lparr>bids := Ladder_delete (bids b) ord\<rparr>
      | SELL \<Rightarrow> b\<lparr>asks := Ladder_delete (asks b) ord\<rparr>)"

subsection \<open>Top of book\<close>

definition best_bid_level :: "OrderBook \<Rightarrow> Level option" where
  "best_bid_level b = Ladder_top (bids b)"

definition best_ask_level :: "OrderBook \<Rightarrow> Level option" where
  "best_ask_level b = Ladder_top (asks b)"

definition best_bid_price :: "OrderBook \<Rightarrow> rat option" where
  "best_bid_price b =
     (case Ladder_top (bids b) of Some top_bid_level \<Rightarrow> Some (level_price top_bid_level)
      | None \<Rightarrow> None)"

definition best_ask_price :: "OrderBook \<Rightarrow> rat option" where
  "best_ask_price b =
     (case Ladder_top (asks b) of Some top_ask_level \<Rightarrow> Some (level_price top_ask_level)
      | None \<Rightarrow> None)"

definition best_bid_qty :: "OrderBook \<Rightarrow> rat option" where
  "best_bid_qty b =
     (case Ladder_top (bids b) of Some top_bid_level \<Rightarrow> Some (Level_volume top_bid_level)
      | None \<Rightarrow> None)"

definition best_ask_qty :: "OrderBook \<Rightarrow> rat option" where
  "best_ask_qty b =
     (case Ladder_top (asks b) of Some top_ask_level \<Rightarrow> Some (Level_volume top_ask_level)
      | None \<Rightarrow> None)"

definition spread :: "OrderBook \<Rightarrow> rat option" where
  "spread b =
     (case (Ladder_top (bids b), Ladder_top (asks b)) of
        (Some top_bid_level, Some top_ask_level) \<Rightarrow>
          Some (level_price top_ask_level - level_price top_bid_level)
      | _ \<Rightarrow> None)"

definition midpoint :: "OrderBook \<Rightarrow> rat option" where
  "midpoint b =
     (case (Ladder_top (bids b), Ladder_top (asks b)) of
        (Some top_bid_level, Some top_ask_level) \<Rightarrow>
          Some ((level_price top_ask_level + level_price top_bid_level) / 2)
      | _ \<Rightarrow> None)"

text \<open>
  \<^verbatim>\<open>_check_integrity\<close>: \<open>True\<close> when the assertion \<^verbatim>\<open>best_bid < best_ask\<close> passes or is
  not reached (a side without a top level), \<open>False\<close> when it fails (orders in cross).
\<close>

definition p_check_integrity :: "OrderBook \<Rightarrow> bool" where
  "p_check_integrity b =
     (case (Ladder_top (bids b), Ladder_top (asks b)) of
        (Some top_bid_level, Some top_ask_level) \<Rightarrow>
          level_price top_bid_level < level_price top_ask_level
      | _ \<Rightarrow> True)"

subsection \<open>Fixed-point formatting\<close>

text \<open>
  Python's \<^verbatim>\<open>f"{x:.{P}f}"\<close>: the value rounded to \<open>P\<close> decimals (\<open>round_half_even\<close>
  above), as sign, integer digits and, for \<open>P > 0\<close>, a point and exactly \<open>P\<close>
  fraction digits.
\<close>

definition digit_char :: "nat \<Rightarrow> char" where
  "digit_char d = ''0123456789'' ! d"

function str_of_nat :: "nat \<Rightarrow> string" where
  "str_of_nat n =
     (if n < 10 then [digit_char n] else str_of_nat (n div 10) @ [digit_char (n mod 10)])"
  by pat_completeness auto
termination
  by (relation "measure (\<lambda>n. n)") auto

declare str_of_nat.simps [simp del]

definition format_f :: "nat \<Rightarrow> rat \<Rightarrow> string" where
  "format_f P x =
     (let n = nat (round_half_even (\<bar>x\<bar> * 10 ^ P));
          fraction = str_of_nat (n mod 10 ^ P)
      in (if x < 0 then ''-'' else [])
         @ str_of_nat (n div 10 ^ P)
         @ (if P = 0 then []
            else ''.'' @ replicate (P - length fraction) (CHR ''0'') @ fraction))"

text \<open>
  Modelled from the spec: \<^verbatim>\<open>OrderSideParser.to_str\<close> (not among the sources), the
  name of the side.
\<close>

definition OrderSideParser_to_str :: "OrderSide \<Rightarrow> string" where
  "OrderSideParser_to_str sd = (case sd of BUY \<Rightarrow> ''BUY'' | SELL \<Rightarrow> ''SELL'')"

subsection \<open>The three classes\<close>

text \<open>
  \<^verbatim>\<open>L3OrderBook\<close> inherits \<^verbatim>\<open>add\<close>, \<^verbatim>\<open>update\<close> and \<^verbatim>\<open>delete\<close> from the base
  class.
\<close>

definition OrderBook_add :: "OrderBook \<Rightarrow> Order \<Rightarrow> OrderBook" where
  "OrderBook_add b ord = p_add b ord"

definition OrderBook_update :: "OrderBook \<Rightarrow> Order \<Rightarrow> OrderBook" where
  "OrderBook_update b ord = p_update b ord"

definition OrderBook_delete :: "OrderBook \<Rightarrow> Order \<Rightarrow> OrderBook" where
  "OrderBook_delete b ord = p_delete b ord"

text \<open>
  \<^verbatim>\<open>L2OrderBook\<close>. \<^verbatim>\<open>_process_order\<close> overwrites the id of the order it is given with
  the price, formatted to the book's price precision.
\<close>

definition L2OrderBook_p_process_order :: "OrderBook \<Rightarrow> Order \<Rightarrow> Order" where
  "L2OrderBook_p_process_order b ord = ord\<lparr>order_id := format_f (price_precision b) (price ord)\<rparr>"

definition L2OrderBook_p_remove_if_exists :: "OrderBook \<Rightarrow> Order \<Rightarrow> OrderBook" where
  "L2OrderBook_p_remove_if_exists b ord =
     (if side ord = BUY \<and> price ord \<in> Ladder_prices (bids b) then p_delete b ord
      else if side ord = SELL \<and> price ord \<in> Ladder_prices (asks b) then p_delete b ord
      else b)"

definition L2OrderBook_add :: "OrderBook \<Rightarrow> Order \<Rightarrow> OrderBook" where
  "L2OrderBook_add b ord = p_add b (L2OrderBook_p_process_order b ord)"

definition L2OrderBook_update :: "OrderBook \<Rightarrow> Order \<Rightarrow> OrderBook" where
  "L2OrderBook_update b ord =
     p_update (L2OrderBook_p_remove_if_exists b (L2OrderBook_p_process_order b ord))
       (L2OrderBook_p_process_order b ord)"

definition L2OrderBook_delete :: "OrderBook \<Rightarrow> Order \<Rightarrow> OrderBook" where
  "L2OrderBook_delete b ord = p_delete b (L2OrderBook_p_process_order b ord)"

text \<open>
  \<^verbatim>\<open>L1OrderBook\<close>. \<^verbatim>\<open>_process_order\<close> overwrites the id with the name of the side;
  \<^verbatim>\<open>add\<close> raises; \<^verbatim>\<open>update\<close> clears the other side first when the order would cross
  it. (The four cached top-of-book objects of the class are read and written by
  \<^verbatim>\<open>update_top\<close> only; they are modelled with \<^verbatim>\<open>update_top\<close> below.)
\<close>

definition L1OrderBook_p_process_order :: "Order \<Rightarrow> Order" where
  "L1OrderBook_p_process_order ord = ord\<lparr>order_id := OrderSideParser_to_str (side ord)\<rparr>"

definition L1OrderBook_add :: "OrderBook \<Rightarrow> Order \<Rightarrow> (error \<times> OrderBook) + OrderBook" where
  "L1OrderBook_add b ord = Inl (NotImplementedError, b)"

definition L1OrderBook_update :: "OrderBook \<Rightarrow> Order \<Rightarrow> OrderBook" where
  "L1OrderBook_update b ord =
     p_update
       (if side ord = BUY \<and> best_ask_level b \<noteq> None
           \<and> (case best_ask_price b of Some pa \<Rightarrow> pa \<le> price ord | None \<Rightarrow> False)
        then OrderBook_clear_asks b
        else if side ord = SELL \<and> best_bid_level b \<noteq> None
           \<and> (case best_bid_price b of Some pb \<Rightarrow> price ord \<le> pb | None \<Rightarrow> False)
        then OrderBook_clear_bids b
        else b)
       (L1OrderBook_p_process_order ord)"

definition L1OrderBook_delete :: "OrderBook \<Rightarrow> Order \<Rightarrow> OrderBook" where
  "L1OrderBook_delete b ord = p_delete b (L1OrderBook_p_process_order ord)"

text \<open>
  \<^verbatim>\<open>self.add\<close>, \<^verbatim>\<open>self.update\<close>, \<^verbatim>\<open>self.delete\<close>: the method of the book's own class.
  The class of a book and its \<open>level\<close> field name each other (each subclass passes its
  own level to the base constructor).
\<close>

definition self_add :: "OrderBook \<Rightarrow> Order \<Rightarrow> (error \<times> OrderBook) + OrderBook" where
  "self_add b ord =
     (case level b of
        L1 \<Rightarrow> L1OrderBook_add b ord
      | L2 \<Rightarrow> Inr (L2OrderBook_add b ord)
      | L3 \<Rightarrow> Inr (OrderBook_add b ord))"

definition self_update :: "OrderBook \<Rightarrow> Order \<Rightarrow> OrderBook" where
  "self_update b ord =
     (case level b of
        L1 \<Rightarrow> L1OrderBook_update b ord
      | L2 \<Rightarrow> L2OrderBook_update b ord
      | L3 \<Rightarrow> OrderBook_update b ord)"

definition self_delete :: "OrderBook \<Rightarrow> Order \<Rightarrow> OrderBook" where
  "self_delete b ord =
     (case level b of
        L1 \<Rightarrow> L1OrderBook_delete b ord
      | L2 \<Rightarrow> L2OrderBook_delete b ord
      | L3 \<Rightarrow> OrderBook_delete b ord)"

subsection \<open>Inbound data\<close>

record OrderBookDelta =
  delta_level :: OrderBookLevel
  delta_type :: OrderBookDeltaType
  delta_order :: Order
  delta_timestamp_ns :: int

record OrderBookDeltas =
  deltas_level :: OrderBookLevel
  deltas :: "OrderBookDelta list"
  deltas_timestamp_ns :: int

record OrderBookSnapshot =
  snapshot_level :: OrderBookLevel
  snapshot_bids :: "(rat \<times> rat) list"
  snapshot_asks :: "(rat \<times> rat) list"
  snapshot_timestamp_ns :: int

datatype OrderBookData =
  Snapshot OrderBookSnapshot
| Deltas OrderBookDeltas
| Delta OrderBookDelta

definition data_level :: "OrderBookData \<Rightarrow> OrderBookLevel" where
  "data_level d =
     (case d of Snapshot s \<Rightarrow> snapshot_level s | Deltas ds \<Rightarrow> deltas_level ds
      | Delta x \<Rightarrow> delta_level x)"

definition p_apply_delta :: "OrderBook \<Rightarrow> OrderBookDelta \<Rightarrow> (error \<times> OrderBook) + OrderBook" where
  "p_apply_delta b delta =
     (case (case delta_type delta of
              ADD \<Rightarrow> self_add b (delta_order delta)
            | UPDATE \<Rightarrow> Inr (self_update b (delta_order delta))
            | DELETE \<Rightarrow> Inr (self_delete b (delta_order delta))) of
        Inl e \<Rightarrow> Inl e
      | Inr b' \<Rightarrow> Inr (b'\<lparr>last_update_timestamp_ns := delta_timestamp_ns delta\<rparr>))"

definition apply_delta :: "OrderBook \<Rightarrow> OrderBookDelta \<Rightarrow> (error \<times> OrderBook) + OrderBook" where
  "apply_delta b delta =
     (case Condition_equal (delta_level delta) (level b) ''delta.level'' ''self.level'' of
        Some e \<Rightarrow> Inl (e, b)
      | None \<Rightarrow> p_apply_delta b delta)"

text \<open>The loop of \<^verbatim>\<open>apply_deltas\<close>: \<^verbatim>\<open>for delta in deltas.deltas: self._apply_delta(delta)\<close>.\<close>

fun apply_each_delta :: "OrderBook \<Rightarrow> OrderBookDelta list \<Rightarrow> (error \<times> OrderBook) + OrderBook" where
  "apply_each_delta b [] = Inr b"
| "apply_each_delta b (delta # rest) =
     (case p_apply_delta b delta of
        Inl e \<Rightarrow> Inl e
      | Inr b' \<Rightarrow> apply_each_delta b' rest)"

definition apply_deltas :: "OrderBook \<Rightarrow> OrderBookDeltas \<Rightarrow> (error \<times> OrderBook) + OrderBook" where
  "apply_deltas b ds =
     (case Condition_equal (deltas_level ds) (level b) ''deltas.level'' ''self.level'' of
        Some e \<Rightarrow> Inl (e, b)
      | None \<Rightarrow> apply_each_delta b (deltas ds))"

text \<open>
  The two loops of \<^verbatim>\<open>apply_snapshot\<close>: each \<open>(price, volume)\<close> pair becomes an
  \<^verbatim>\<open>Order(price, volume, side)\<close> handed to \<^verbatim>\<open>self.update\<close>. The id such an order gets
  from its constructor is not given by the caller; \<open>new_id k\<close> stands for the id of the
  \<open>k\<close>-th order the call builds (the L1 and L2 books overwrite it).
\<close>

fun update_each :: "(nat \<Rightarrow> string) \<Rightarrow> OrderSide \<Rightarrow> nat \<Rightarrow> OrderBook \<Rightarrow> (rat \<times> rat) list \<Rightarrow> OrderBook" where
  "update_each new_id sd k b [] = b"
| "update_each new_id sd k b (entry # rest) =
     update_each new_id sd (Suc k)
       (self_update b \<lparr>price = fst entry, volume = snd entry, side = sd, order_id = new_id k\<rparr>)
       rest"

definition apply_snapshot :: "(nat \<Rightarrow> string) \<Rightarrow> OrderBook \<Rightarrow> OrderBookSnapshot \<Rightarrow> (error \<times> OrderBook) + OrderBook" where
  "apply_snapshot new_id b snapshot =
     (case Condition_equal (snapshot_level snapshot) (level b) ''snapshot.level'' ''self.level'' of
        Some e \<Rightarrow> Inl (e, b)
      | None \<Rightarrow>
          Inr ((update_each new_id SELL (length (snapshot_bids snapshot))
                  (update_each new_id BUY 0 (OrderBook_clear b) (snapshot_bids snapshot))
                  (snapshot_asks snapshot))
               \<lparr>last_update_timestamp_ns := snapshot_timestamp_ns snapshot\<rparr>))"

text \<open>
  \<^verbatim>\<open>OrderBook.apply(data)\<close>: the first statement is the call \<^verbatim>\<open>Condition(data.level,
  self.level, "data.level", "self.level")\<close>, then the data is dispatched on its class. A
  single delta goes to \<^verbatim>\<open>_apply_delta\<close>, not to \<^verbatim>\<open>apply_delta\<close>.
\<close>

definition OrderBook_apply :: "(nat \<Rightarrow> string) \<Rightarrow> OrderBook \<Rightarrow> OrderBookData \<Rightarrow> (error \<times> OrderBook) + OrderBook" where
  "OrderBook_apply new_id b data =
     (case Condition_call (data_level data) (level b) ''data.level'' ''self.level'' of
        Some e \<Rightarrow> Inl (e, b)
      | None \<Rightarrow>
          (case data of
             Snapshot snapshot \<Rightarrow> apply_snapshot new_id b snapshot
           | Deltas ds \<Rightarrow> apply_deltas b ds
           | Delta delta \<Rightarrow> p_apply_delta b delta))"

text \<open>
  The book an outcome carries, and the exception it carries, if any.
\<close>

definition book_after :: "(error \<times> OrderBook) + OrderBook \<Rightarrow> OrderBook" where
  "book_after r = (case r of Inl (e, b) \<Rightarrow> b | Inr b \<Rightarrow> b)"

definition raised :: "(error \<times> OrderBook) + OrderBook \<Rightarrow> error option" where
  "raised r = (case r of Inl (e, b) \<Rightarrow> Some e | Inr b \<Rightarrow> None)"

text \<open>
  A caller that applies deltas one after the other through the public
  \<^verbatim>\<open>apply_delta\<close>; an exception ends the sequence where it is raised. This is the
  right-hand side of the spec's delta composition law.
\<close>

fun apply_delta_one_by_one :: "OrderBook \<Rightarrow> OrderBookDelta list \<Rightarrow> (error \<times> OrderBook) + OrderBook" where
  "apply_delta_one_by_one b [] = Inr b"
| "apply_delta_one_by_one b (delta # rest) =
     (case apply_delta b delta of
        Inl e \<Rightarrow> Inl e
      | Inr b' \<Rightarrow> apply_delta_one_by_one b' rest)"

subsection \<open>Integrity checks and structural invariants\<close>

text \<open>
  \<^verbatim>\<open>L1OrderBook.check_integrity\<close> and \<^verbatim>\<open>L2OrderBook.check_integrity\<close>: \<open>True\<close> when every
  assertion passes. For L1 at most one level on each side, for L2 exactly one order in
  every level, both on top of \<^verbatim>\<open>_check_integrity\<close>.
\<close>

definition L1OrderBook_check_integrity :: "OrderBook \<Rightarrow> bool" where
  "L1OrderBook_check_integrity b =
     (p_check_integrity b \<and> length (levels (bids b)) \<le> 1 \<and> length (levels (asks b)) \<le> 1)"


text \<open>
  The structure \<^verbatim>\<open>_process_order\<close> is there to keep, as the spec's data model states
  it. A side of an L1 book holds at most one level, that level one order, named after
  the side. A side of an L2 book holds one level per price, each level one order, named
  by its price formatted to the book's precision.
\<close>

definition L1_side_ok :: "OrderSide \<Rightarrow> Ladder \<Rightarrow> bool" where
  "L1_side_ok sd ld =
     (case levels ld of
        [] \<Rightarrow> True
      | [l] \<Rightarrow> (case orders l of [ord] \<Rightarrow> order_id ord = OrderSideParser_to_str sd | _ \<Rightarrow> False)
      | _ \<Rightarrow> False)"

definition L1_book_ok :: "OrderBook \<Rightarrow> bool" where
  "L1_book_ok b = (L1_side_ok BUY (bids b) \<and> L1_side_ok SELL (asks b))"

definition L2_level_ok :: "nat \<Rightarrow> Level \<Rightarrow> bool" where
  "L2_level_ok P l =
     (case orders l of [ord] \<Rightarrow> order_id ord = format_f P (level_price l) | _ \<Rightarrow> False)"

definition L2_side_ok :: "nat \<Rightarrow> Ladder \<Rightarrow> bool" where
  "L2_side_ok P ld =
     (distinct (map level_price (levels ld)) \<and> list_all (L2_level_ok P) (levels ld))"

text \<open>
  A price is quantized to \<open>P\<close> decimals when \<open>10 ^ P\<close> times it is an integer
  (invariant I2 of the data model). The ladders of a book carry the book's precisions:
  \<^verbatim>\<open>__init__\<close>, \<^verbatim>\<open>clear_bids\<close> and \<^verbatim>\<open>clear_asks\<close> build them so, and nothing
  assigns the fields afterwards.
\<close>

definition quantized :: "nat \<Rightarrow> rat \<Rightarrow> bool" where
  "quantized P x = (of_int \<lfloor>x * 10 ^ P\<rfloor> = x * 10 ^ P)"

definition prices_quantized :: "nat \<Rightarrow> Ladder \<Rightarrow> bool" where
  "prices_quantized P ld = list_all (\<lambda>l. quantized P (level_price l)) (levels ld)"

definition precisions_agree :: "OrderBook \<Rightarrow> bool" where
  "precisions_agree b =
     (ladder_price_precision (bids b) = price_precision b
      \<and> ladder_size_precision (bids b) = size_precision b
      \<and> ladder_price_precision (asks b) = price_precision b
      \<and> ladder_size_precision (asks b) = size_precision b)"

text \<open>Reading a decimal numeral back, for the proofs about \<open>format_f\<close>.\<close>

definition digit_value :: "char \<Rightarrow> nat" where
  "digit_value c = of_char c - 48"

definition read_nat :: "string \<Rightarrow> nat" where
  "read_nat s = foldl (\<lambda>a c. 10 * a + digit_value c) 0 s"

section \<open>L1 order book: the cached top of book\<close>

text \<open>
  \<^verbatim>\<open>L1OrderBook.update_top\<close> works on four cached objects: \<^verbatim>\<open>_top_bid\<close> and
  \<^verbatim>\<open>_top_ask\<close> are the very \<^verbatim>\<open>Order\<close> objects that rest in the ladders, and
  \<^verbatim>\<open>_top_bid_level\<close>, \<^verbatim>\<open>_top_ask_level\<close> the very \<^verbatim>\<open>Level\<close> objects. Writing a field
  through the cache is seen through the ladder, so this part of the class is modelled over
  an explicit store: objects live at addresses, the ladders and the cache hold addresses.
  The book's two precisions are the ones its ladders quantize to.
\<close>

type_synonym addr = nat

record LevelObject =
  object_price :: rat
  object_orders :: "addr list"

record L1OrderBook =
  book_price_precision :: nat
  book_size_precision :: nat
  order_store :: "addr \<Rightarrow> Order option"
  level_store :: "addr \<Rightarrow> LevelObject option"
  next_addr :: addr
  bid_levels :: "addr list"
  ask_levels :: "addr list"
  top_bid :: "addr option"
  top_ask :: "addr option"
  top_bid_level :: "addr option"
  top_ask_level :: "addr option"

definition L1OrderBook_init :: "nat \<Rightarrow> nat \<Rightarrow> L1OrderBook" where
  "L1OrderBook_init pp sp =
     \<lparr>book_price_precision = pp, book_size_precision = sp,
      order_store = (\<lambda>a. None), level_store = (\<lambda>a. None), next_addr = 0,
      bid_levels = [], ask_levels = [],
      top_bid = None, top_ask = None, top_bid_level = None, top_ask_level = None\<rparr>"

datatype AggressorSide = AggressorSide_BUY | AggressorSide_SELL

record QuoteTick =
  bid :: rat
  ask :: rat
  bid_size :: rat
  ask_size :: rat

record TradeTick =
  trade_price :: rat
  trade_size :: rat
  aggressor_side :: AggressorSide

datatype Tick = Quote QuoteTick | Trade TradeTick

text \<open>The price of the order, and of the level, at an address.\<close>

definition order_price_at :: "L1OrderBook \<Rightarrow> addr option \<Rightarrow> rat option" where
  "order_price_at s r =
     (case r of None \<Rightarrow> None
      | Some a \<Rightarrow> (case order_store s a of None \<Rightarrow> None | Some ord \<Rightarrow> Some (price ord)))"

definition level_price_at :: "L1OrderBook \<Rightarrow> addr option \<Rightarrow> rat option" where
  "level_price_at s r =
     (case r of None \<Rightarrow> None
      | Some a \<Rightarrow> (case level_store s a of None \<Rightarrow> None | Some l \<Rightarrow> Some (object_price l)))"

text \<open>
  Modelled from the spec: \<^verbatim>\<open>Ladder.top()\<close> and \<^verbatim>\<open>Ladder.add(order)\<close> over the
  store, as above: the first level; the order quantized (it is the caller's object, so
  the object is), then put into the level at its price, or into a new level at its place
  in the price order.
\<close>

definition top_addr :: "addr list \<Rightarrow> addr option" where
  "top_addr ls = (case ls of [] \<Rightarrow> None | a # _ \<Rightarrow> Some a)"

fun level_at_price :: "(addr \<Rightarrow> LevelObject option) \<Rightarrow> rat \<Rightarrow> addr list \<Rightarrow> addr option" where
  "level_at_price st p [] = None"
| "level_at_price st p (a # as) =
     (case st a of
        None \<Rightarrow> level_at_price st p as
      | Some l \<Rightarrow> if object_price l = p then Some a else level_at_price st p as)"

fun insert_addr :: "(addr \<Rightarrow> LevelObject option) \<Rightarrow> bool \<Rightarrow> rat \<Rightarrow> addr \<Rightarrow> addr list \<Rightarrow> addr list" where
  "insert_addr st rv p n [] = [n]"
| "insert_addr st rv p n (a # as) =
     (case st a of
        None \<Rightarrow> a # insert_addr st rv p n as
      | Some l \<Rightarrow>
          if (if rv then object_price l < p else p < object_price l) then n # a # as
          else a # insert_addr st rv p n as)"

definition store_quantize :: "L1OrderBook \<Rightarrow> Order \<Rightarrow> Order" where
  "store_quantize s ord =
     ord\<lparr>price := quantize (book_price_precision s) (price ord),
         volume := quantize (book_size_precision s) (volume ord)\<rparr>"

text \<open>
  \<^verbatim>\<open>self._add(order)\<close> for the order at address \<open>r\<close>: into the bids for a BUY, into the
  asks for a SELL, by \<^verbatim>\<open>Ladder.add\<close>. A new level is a new object.
\<close>

definition store_add :: "L1OrderBook \<Rightarrow> addr \<Rightarrow> L1OrderBook" where
  "store_add s r =
     (case order_store s r of
        None \<Rightarrow> s
      | Some given \<Rightarrow>
          (let ord = store_quantize s given;
               s1 = s\<lparr>order_store := (order_store s)(r \<mapsto> ord)\<rparr>
           in case level_at_price (level_store s1) (price ord)
                  (case side ord of BUY \<Rightarrow> bid_levels s1 | SELL \<Rightarrow> ask_levels s1) of
             Some a \<Rightarrow>
               s1\<lparr>level_store := (level_store s1)
                    (a := map_option (\<lambda>l. l\<lparr>object_orders := object_orders l @ [r]\<rparr>)
                            (level_store s1 a))\<rparr>
           | None \<Rightarrow>
               (case side ord of
                  BUY \<Rightarrow>
                    s1\<lparr>level_store := (level_store s1)
                         (next_addr s1 \<mapsto> \<lparr>object_price = price ord, object_orders = [r]\<rparr>),
                      bid_levels := insert_addr (level_store s1) True (price ord) (next_addr s1)
                                      (bid_levels s1),
                      next_addr := Suc (next_addr s1)\<rparr>
                | SELL \<Rightarrow>
                    s1\<lparr>level_store := (level_store s1)
                         (next_addr s1 \<mapsto> \<lparr>object_price = price ord, object_orders = [r]\<rparr>),
                      ask_levels := insert_addr (level_store s1) False (price ord) (next_addr s1)
                                      (ask_levels s1),
                      next_addr := Suc (next_addr s1)\<rparr>)))"

text \<open>
  \<^verbatim>\<open>_update_bid(price, size)\<close>. Without a cached bid: a new order, its id set by
  \<^verbatim>\<open>_process_order\<close> to the name of its side, is added to the bids and cached with the
  top level of the bids. With one: the cached level's price and the cached order's price
  and volume are overwritten in place (\<^verbatim>\<open>Order.update_price\<close> and
  \<^verbatim>\<open>Order.update_volume\<close>, not among the sources, set the field they name).
  \<^verbatim>\<open>_update_ask\<close> is the same on the other side.
\<close>

definition p_update_bid :: "L1OrderBook \<Rightarrow> rat \<Rightarrow> rat \<Rightarrow> L1OrderBook" where
  "p_update_bid s p sz =
     (case top_bid s of
        None \<Rightarrow>
          (let r = next_addr s;
               s1 = s\<lparr>order_store := (order_store s)
                        (r \<mapsto> L1OrderBook_p_process_order
                               \<lparr>price = p, volume = sz, side = BUY, order_id = []\<rparr>),
                      next_addr := Suc r\<rparr>;
               s2 = store_add s1 r
           in s2\<lparr>top_bid := Some r, top_bid_level := top_addr (bid_levels s2)\<rparr>)
      | Some r \<Rightarrow>
          (case top_bid_level s of
             None \<Rightarrow> s
           | Some a \<Rightarrow>
               s\<lparr>level_store := (level_store s)
                    (a := map_option (\<lambda>l. l\<lparr>object_price := p\<rparr>) (level_store s a)),
                 order_store := (order_store s)
                    (r := map_option (\<lambda>ord. ord\<lparr>price := p, volume := sz\<rparr>)
                            (order_store s r))\<rparr>))"

definition p_update_ask :: "L1OrderBook \<Rightarrow> rat \<Rightarrow> rat \<Rightarrow> L1OrderBook" where
  "p_update_ask s p sz =
     (case top_ask s of
        None \<Rightarrow>
          (let r = next_addr s;
               s1 = s\<lparr>order_store := (order_store s)
                        (r \<mapsto> L1OrderBook_p_process_order
                               \<lparr>price = p, volume = sz, side = SELL, order_id = []\<rparr>),
                      next_addr := Suc r\<rparr>;
               s2 = store_add s1 r
           in s2\<lparr>top_ask := Some r, top_ask_level := top_addr (ask_levels s2)\<rparr>)
      | Some r \<Rightarrow>
          (case top_ask_level s of
             None \<Rightarrow> s
           | Some a \<Rightarrow>
               s\<lparr>level_store := (level_store s)
                    (a := map_option (\<lambda>l. l\<lparr>object_price := p\<rparr>) (level_store s a)),
                 order_store := (order_store s)
                    (r := map_option (\<lambda>ord. ord\<lparr>price := p, volume := sz\<rparr>)
                            (order_store s r))\<rparr>))"

definition p_update_quote_tick :: "L1OrderBook \<Rightarrow> QuoteTick \<Rightarrow> L1OrderBook" where
  "p_update_quote_tick s tick =
     p_update_ask (p_update_bid s (bid tick) (bid_size tick)) (ask tick) (ask_size tick)"

text \<open>
  \<^verbatim>\<open>_update_trade_tick\<close>. After the aggressor's side is updated, the guard compares the
  two cached prices; the two statements under it are comparisons
  (\<^verbatim>\<open>self._top_ask.price == self._top_bid.price\<close>), the values of which are dropped:
  they are the two unused \<open>let\<close>s below.
\<close>

definition crossing :: "rat option \<Rightarrow> rat option \<Rightarrow> bool" where
  "crossing bid_price ask_price =
     (case (bid_price, ask_price) of (Some pb, Some pa) \<Rightarrow> pa \<le> pb | _ \<Rightarrow> False)"

definition p_update_trade_tick :: "L1OrderBook \<Rightarrow> TradeTick \<Rightarrow> L1OrderBook" where
  "p_update_trade_tick s tick =
     (case aggressor_side tick of
        AggressorSide_SELL \<Rightarrow>
          (let s1 = p_update_bid s (trade_price tick) (trade_size tick) in
           if top_ask s1 \<noteq> None
              \<and> crossing (order_price_at s1 (top_bid s1)) (order_price_at s1 (top_ask s1))
           then (let compared_order =
                       (order_price_at s1 (top_ask s1) = order_price_at s1 (top_bid s1));
                     compared_level =
                       (level_price_at s1 (top_ask_level s1) = order_price_at s1 (top_bid s1))
                 in s1)
           else s1)
      | AggressorSide_BUY \<Rightarrow>
          (let s1 = p_update_ask s (trade_price tick) (trade_size tick) in
           if top_bid s1 \<noteq> None
              \<and> crossing (order_price_at s1 (top_bid s1)) (order_price_at s1 (top_ask s1))
           then (let compared_order =
                       (order_price_at s1 (top_bid s1) = order_price_at s1 (top_ask s1));
                     compared_level =
                       (level_price_at s1 (top_bid_level s1) = order_price_at s1 (top_ask s1))
                 in s1)
           else s1))"

definition update_top :: "L1OrderBook \<Rightarrow> Tick \<Rightarrow> L1OrderBook" where
  "update_top s tick =
     (case tick of
        Quote q \<Rightarrow> p_update_quote_tick s q
      | Trade t \<Rightarrow> p_update_trade_tick s t)"

text \<open>The best prices of the two ladders, read through the store.\<close>

definition store_best_bid_price :: "L1OrderBook \<Rightarrow> rat option" where
  "store_best_bid_price s = level_price_at s (top_addr (bid_levels s))"

definition store_best_ask_price :: "L1OrderBook \<Rightarrow> rat option" where
  "store_best_ask_price s = level_price_at s (top_addr (ask_levels s))"

text \<open>
  Modelled from the spec: \<^verbatim>\<open>Ladder.update(order)\<close> and \<^verbatim>\<open>Ladder.delete(order)\<close>
  over the store, as for the ladder of records above. The order is located by its id, in
  the first level that holds an order of that id. \<^verbatim>\<open>delete\<close> takes that order out of
  the level, and a level left without orders out of the ladder. \<^verbatim>\<open>update\<close> adds an
  order whose id no level holds; at an unchanged price the quantized order takes the
  place of the stored one in its level; at a new price the stored order is deleted and
  the new one added.
\<close>

definition order_id_at :: "L1OrderBook \<Rightarrow> addr \<Rightarrow> string option" where
  "order_id_at s r = map_option order_id (order_store s r)"

definition side_levels :: "L1OrderBook \<Rightarrow> OrderSide \<Rightarrow> addr list" where
  "side_levels s sd = (case sd of BUY \<Rightarrow> bid_levels s | SELL \<Rightarrow> ask_levels s)"

fun level_holding :: "L1OrderBook \<Rightarrow> string \<Rightarrow> addr list \<Rightarrow> addr option" where
  "level_holding s i [] = None"
| "level_holding s i (a # as) =
     (case level_store s a of
        None \<Rightarrow> level_holding s i as
      | Some l \<Rightarrow>
          if Some i \<in> order_id_at s ` set (object_orders l) then Some a
          else level_holding s i as)"

fun remove_addr :: "L1OrderBook \<Rightarrow> string \<Rightarrow> addr list \<Rightarrow> addr list" where
  "remove_addr s i [] = []"
| "remove_addr s i (r # rs) =
     (if order_id_at s r = Some i then rs else r # remove_addr s i rs)"

fun replace_addr :: "L1OrderBook \<Rightarrow> string \<Rightarrow> addr \<Rightarrow> addr list \<Rightarrow> addr list" where
  "replace_addr s i n [] = []"
| "replace_addr s i n (r # rs) =
     (if order_id_at s r = Some i then n # rs else r # replace_addr s i n rs)"

definition store_delete :: "L1OrderBook \<Rightarrow> OrderSide \<Rightarrow> string \<Rightarrow> L1OrderBook" where
  "store_delete s sd i =
     (case level_holding s i (side_levels s sd) of
        None \<Rightarrow> s
      | Some a \<Rightarrow>
          (case level_store s a of
             None \<Rightarrow> s
           | Some l \<Rightarrow>
               if remove_addr s i (object_orders l) = []
               then (case sd of
                       BUY \<Rightarrow> s\<lparr>bid_levels := remove1 a (bid_levels s)\<rparr>
                     | SELL \<Rightarrow> s\<lparr>ask_levels := remove1 a (ask_levels s)\<rparr>)
               else s\<lparr>level_store := (level_store s)
                        (a \<mapsto> l\<lparr>object_orders := remove_addr s i (object_orders l)\<rparr>)\<rparr>))"

definition store_ladder_update :: "L1OrderBook \<Rightarrow> addr \<Rightarrow> L1OrderBook" where
  "store_ladder_update s r =
     (case order_store s r of
        None \<Rightarrow> s
      | Some ord \<Rightarrow>
          (case level_holding s (order_id ord) (side_levels s (side ord)) of
             None \<Rightarrow> store_add s r
           | Some a \<Rightarrow>
               (case level_store s a of
                  None \<Rightarrow> s
                | Some l \<Rightarrow>
                    if object_price l = price (store_quantize s ord)
                    then s\<lparr>order_store := (order_store s)(r \<mapsto> store_quantize s ord),
                           level_store := (level_store s)
                             (a \<mapsto> l\<lparr>object_orders :=
                                        replace_addr s (order_id ord) r (object_orders l)\<rparr>)\<rparr>
                    else store_add (store_delete s (side ord) (order_id ord)) r)))"

text \<open>
  \<^verbatim>\<open>L1OrderBook.update(order)\<close> over the store, for a book that is also written
  through \<^verbatim>\<open>update_top\<close>. The order is an object of the caller, new to the store. The
  other side is cleared when the order would cross it (\<^verbatim>\<open>clear_asks\<close> and
  \<^verbatim>\<open>clear_bids\<close> put a new, empty ladder in place and leave the cache alone), the id
  is set to the name of the side and the order handed to \<^verbatim>\<open>Ladder.update\<close>.
\<close>

definition store_update :: "L1OrderBook \<Rightarrow> Order \<Rightarrow> L1OrderBook" where
  "store_update s ord =
     (let s1 = (if side ord = BUY \<and> top_addr (ask_levels s) \<noteq> None
                   \<and> (case store_best_ask_price s of Some pa \<Rightarrow> pa \<le> price ord
                       | None \<Rightarrow> False)
                then s\<lparr>ask_levels := []\<rparr>
                else if side ord = SELL \<and> top_addr (bid_levels s) \<noteq> None
                   \<and> (case store_best_bid_price s of Some pb \<Rightarrow> price ord \<le> pb
                       | None \<Rightarrow> False)
                then s\<lparr>bid_levels := []\<rparr>
                else s);
          r = next_addr s1;
          s2 = s1\<lparr>order_store := (order_store s1)(r \<mapsto> L1OrderBook_p_process_order ord),
                  next_addr := Suc r\<rparr>
      in store_ladder_update s2 r)"

text \<open>
  The ladders as \<^verbatim>\<open>bids.levels\<close> and \<^verbatim>\<open>asks.levels\<close> show them: for each level its
  price and the prices of its orders, best level first.
\<close>

definition shown_levels :: "L1OrderBook \<Rightarrow> addr list \<Rightarrow> (rat \<times> rat list) list" where
  "shown_levels s ls =
     map (\<lambda>l. (object_price l,
                map (\<lambda>ord. price ord) (List.map_filter (order_store s) (object_orders l))))
       (List.map_filter (level_store s) ls)"

section \<open>Execution databases\<close>

text \<open>
  \<^verbatim>\<open>ExecutionDatabase\<close> and its two subclasses. The state of a database object is its
  trader id and what it has sent to its logger (level and message, in order); the Redis
  database adds its key prefixes and the server, a map from a key to the list stored
  under it (a key that does not exist holds the empty list, as \<^verbatim>\<open>LRANGE\<close> reports it).
  Identifiers are their \<^verbatim>\<open>value\<close> strings, and a message shows an identifier by that
  string.
\<close>

type_synonym bytes = string

datatype LogLevel = DEBUG | INFO | WARNING | ERROR | CRITICAL

record ExecutionDatabase =
  trader_id :: string
  logged :: "(LogLevel \<times> string) list"

definition ExecutionDatabase_init :: "string \<Rightarrow> ExecutionDatabase" where
  "ExecutionDatabase_init tid = \<lparr>trader_id = tid, logged = [(INFO, ''Initialized.'')]\<rparr>"

subsection \<open>The bypass database\<close>

definition Bypass_init :: "string \<Rightarrow> ExecutionDatabase" where
  "Bypass_init tid = ExecutionDatabase_init tid"

definition Bypass_flush :: "ExecutionDatabase \<Rightarrow> ExecutionDatabase" where
  "Bypass_flush db = db"

definition Bypass_load_accounts :: "ExecutionDatabase \<Rightarrow> (string \<rightharpoonup> 'a)" where
  "Bypass_load_accounts db = Map.empty"

definition Bypass_load_orders :: "ExecutionDatabase \<Rightarrow> (string \<rightharpoonup> 'o)" where
  "Bypass_load_orders db = Map.empty"

definition Bypass_load_positions :: "ExecutionDatabase \<Rightarrow> (string \<rightharpoonup> 'p)" where
  "Bypass_load_positions db = Map.empty"

definition Bypass_load_account :: "ExecutionDatabase \<Rightarrow> string \<Rightarrow> 'a option" where
  "Bypass_load_account db account_id = None"

definition Bypass_load_order :: "ExecutionDatabase \<Rightarrow> string \<Rightarrow> 'o option" where
  "Bypass_load_order db client_order_id = None"

definition Bypass_load_position :: "ExecutionDatabase \<Rightarrow> string \<Rightarrow> 'p option" where
  "Bypass_load_position db position_id = None"

definition Bypass_load_strategy :: "ExecutionDatabase \<Rightarrow> string \<Rightarrow> (string \<rightharpoonup> bytes)" where
  "Bypass_load_strategy db strategy_id = Map.empty"

definition Bypass_delete_strategy :: "ExecutionDatabase \<Rightarrow> string \<Rightarrow> ExecutionDatabase" where
  "Bypass_delete_strategy db strategy_id = db"

definition Bypass_add_account :: "ExecutionDatabase \<Rightarrow> 'a \<Rightarrow> ExecutionDatabase" where
  "Bypass_add_account db account = db"

definition Bypass_add_order :: "ExecutionDatabase \<Rightarrow> 'o \<Rightarrow> ExecutionDatabase" where
  "Bypass_add_order db ord = db"

definition Bypass_add_position :: "ExecutionDatabase \<Rightarrow> 'p \<Rightarrow> ExecutionDatabase" where
  "Bypass_add_position db position = db"

definition Bypass_update_account :: "ExecutionDatabase \<Rightarrow> 'a \<Rightarrow> ExecutionDatabase" where
  "Bypass_update_account db account = db"

definition Bypass_update_order :: "ExecutionDatabase \<Rightarrow> 'o \<Rightarrow> ExecutionDatabase" where
  "Bypass_update_order db ord = db"

definition Bypass_update_position :: "ExecutionDatabase \<Rightarrow> 'p \<Rightarrow> ExecutionDatabase" where
  "Bypass_update_position db position = db"

definition Bypass_update_strategy :: "ExecutionDatabase \<Rightarrow> 's \<Rightarrow> ExecutionDatabase" where
  "Bypass_update_strategy db strategy = db"

text \<open>The calls that do not return a value, and a database after a sequence of them.\<close>

datatype ('a, 'o, 'p, 's) Command =
  Flush
| DeleteStrategy string
| AddAccount 'a
| AddOrder 'o
| AddPosition 'p
| UpdateAccount 'a
| UpdateOrder 'o
| UpdatePosition 'p
| UpdateStrategy 's

definition Bypass_call :: "ExecutionDatabase \<Rightarrow> ('a, 'o, 'p, 's) Command \<Rightarrow> ExecutionDatabase" where
  "Bypass_call db c =
     (case c of
        Flush \<Rightarrow> Bypass_flush db
      | DeleteStrategy strategy_id \<Rightarrow> Bypass_delete_strategy db strategy_id
      | AddAccount account \<Rightarrow> Bypass_add_account db account
      | AddOrder ord \<Rightarrow> Bypass_add_order db ord
      | AddPosition position \<Rightarrow> Bypass_add_position db position
      | UpdateAccount account \<Rightarrow> Bypass_update_account db account
      | UpdateOrder ord \<Rightarrow> Bypass_update_order db ord
      | UpdatePosition position \<Rightarrow> Bypass_update_position db position
      | UpdateStrategy strategy \<Rightarrow> Bypass_update_strategy db strategy)"

fun Bypass_calls :: "ExecutionDatabase \<Rightarrow> ('a, 'o, 'p, 's) Command list \<Rightarrow> ExecutionDatabase" where
  "Bypass_calls db [] = db"
| "Bypass_calls db (c # cs) = Bypass_calls (Bypass_call db c) cs"

subsection \<open>The Redis database\<close>

text \<open>
  The event serializer, the events and the classes \<^verbatim>\<open>Order\<close> (with its four
  concrete variants), \<^verbatim>\<open>Account\<close> and \<^verbatim>\<open>Position\<close> are not among the sources: they
  are parameters of the model, collected in one record. \<open>'e\<close> is the type of events, \<open>'o\<close>, \<open>'a\<close>, \<open>'p\<close> the
  types of orders, accounts and positions. \<open>is_OrderInitialized\<close> and \<open>is_OrderFilled\<close>
  decide whether an event has the class that a typed local variable of the source
  requires. \<open>OTHER_ORDER_TYPE\<close> stands for a value of the \<^verbatim>\<open>OrderType\<close> enum that is none
  of the four the code names.
\<close>

datatype OrderType = MARKET | LIMIT | STOP_MARKET | STOP_LIMIT | OTHER_ORDER_TYPE

record ('e, 'o, 'a, 'p) Domain =
  serialize :: "'e \<Rightarrow> bytes"
  deserialize :: "bytes \<Rightarrow> 'e"
  is_OrderInitialized :: "'e \<Rightarrow> bool"
  is_OrderFilled :: "'e \<Rightarrow> bool"
  order_type :: "'e \<Rightarrow> OrderType"
  MarketOrder_create :: "'e \<Rightarrow> 'o"
  LimitOrder_create :: "'e \<Rightarrow> 'o"
  StopMarketOrder_create :: "'e \<Rightarrow> 'o"
  StopLimitOrder_create :: "'e \<Rightarrow> 'o"
  Order_apply :: "'o \<Rightarrow> 'e \<Rightarrow> 'o"
  Order_client_order_id :: "'o \<Rightarrow> string"
  Order_last_event_c :: "'o \<Rightarrow> 'e"
  Account_new :: "'e \<Rightarrow> 'a"
  Account_apply :: "'a \<Rightarrow> 'e \<Rightarrow> 'a"
  Account_id :: "'a \<Rightarrow> string"
  Account_last_event_c :: "'a \<Rightarrow> 'e"
  Position_new :: "'e \<Rightarrow> 'p"
  Position_apply :: "'p \<Rightarrow> 'e \<Rightarrow> 'p"
  Position_id :: "'p \<Rightarrow> string"
  Position_last_event_c :: "'p \<Rightarrow> 'e"

record RedisExecutionDatabase = ExecutionDatabase +
  key_trader :: string
  key_accounts :: string
  key_orders :: string
  key_positions :: string
  key_strategies :: string
  redis :: "string \<Rightarrow> bytes list"

definition Redis_init :: "string \<Rightarrow> (string \<Rightarrow> bytes list) \<Rightarrow> RedisExecutionDatabase" where
  "Redis_init tid server =
     \<lparr>trader_id = tid, logged = [(INFO, ''Initialized.'')],
      key_trader = ''Trader-'' @ tid,
      key_accounts = ''Trader-'' @ tid @ '':Accounts:'',
      key_orders = ''Trader-'' @ tid @ '':Orders:'',
      key_positions = ''Trader-'' @ tid @ '':Positions:'',
      key_strategies = ''Trader-'' @ tid @ '':Strategies:'',
      redis = server\<rparr>"

text \<open>
  \<^verbatim>\<open>RPUSH\<close> appends to the list under the key and replies with the length of the list
  after the push; \<^verbatim>\<open>LRANGE key 0 -1\<close> is the whole list.
\<close>

definition rpush :: "(string \<Rightarrow> bytes list) \<Rightarrow> string \<Rightarrow> bytes \<Rightarrow> nat \<times> (string \<Rightarrow> bytes list)" where
  "rpush server name v = (length (server name) + 1, server(name := server name @ [v]))"

definition lrange_all :: "(string \<Rightarrow> bytes list) \<Rightarrow> string \<Rightarrow> bytes list" where
  "lrange_all server name = server name"

definition log_to :: "LogLevel \<Rightarrow> string \<Rightarrow> ('z RedisExecutionDatabase_scheme) \<Rightarrow> ('z RedisExecutionDatabase_scheme)" where
  "log_to lv msg db = db\<lparr>logged := logged db @ [(lv, msg)]\<rparr>"

text \<open>The loop \<^verbatim>\<open>for event in events: entity.apply(deserialize(event))\<close>.\<close>

fun apply_events :: "('x \<Rightarrow> 'e \<Rightarrow> 'x) \<Rightarrow> (bytes \<Rightarrow> 'e) \<Rightarrow> 'x \<Rightarrow> bytes list \<Rightarrow> 'x" where
  "apply_events ap de entity [] = entity"
| "apply_events ap de entity (event_bytes # rest) =
     apply_events ap de (ap entity (de event_bytes)) rest"

definition load_account :: "('e, 'o, 'a, 'p) Domain \<Rightarrow> RedisExecutionDatabase \<Rightarrow> string \<Rightarrow> 'a option" where
  "load_account dm db account_id =
     (case lrange_all (redis db) (key_accounts db @ account_id) of
        [] \<Rightarrow> None
      | first # rest \<Rightarrow>
          Some (apply_events (Account_apply dm) (deserialize dm)
                  (Account_new dm (deserialize dm first)) rest))"

definition load_order :: "('e, 'o, 'a, 'p) Domain \<Rightarrow> RedisExecutionDatabase \<Rightarrow> string \<Rightarrow> error + 'o option" where
  "load_order dm db client_order_id =
     (case lrange_all (redis db) (key_orders db @ client_order_id) of
        [] \<Rightarrow> Inr None
      | first # rest \<Rightarrow>
          (let init = deserialize dm first in
           if \<not> is_OrderInitialized dm init then Inl TypeError
           else (case order_type dm init of
                   MARKET \<Rightarrow>
                     Inr (Some (apply_events (Order_apply dm) (deserialize dm)
                                  (MarketOrder_create dm init) rest))
                 | LIMIT \<Rightarrow>
                     Inr (Some (apply_events (Order_apply dm) (deserialize dm)
                                  (LimitOrder_create dm init) rest))
                 | STOP_MARKET \<Rightarrow>
                     Inr (Some (apply_events (Order_apply dm) (deserialize dm)
                                  (StopMarketOrder_create dm init) rest))
                 | STOP_LIMIT \<Rightarrow>
                     Inr (Some (apply_events (Order_apply dm) (deserialize dm)
                                  (StopLimitOrder_create dm init) rest))
                 | OTHER_ORDER_TYPE \<Rightarrow> Inl RuntimeError)))"

definition load_position :: "('e, 'o, 'a, 'p) Domain \<Rightarrow> RedisExecutionDatabase \<Rightarrow> string \<Rightarrow> error + 'p option" where
  "load_position dm db position_id =
     (case lrange_all (redis db) (key_positions db @ position_id) of
        [] \<Rightarrow> Inr None
      | first # rest \<Rightarrow>
          (let initial_fill = deserialize dm first in
           if \<not> is_OrderFilled dm initial_fill then Inl TypeError
           else Inr (Some (apply_events (Position_apply dm) (deserialize dm)
                             (Position_new dm initial_fill) rest))))"

text \<open>
  \<^verbatim>\<open>add_account\<close> pushes through a pipeline: its reply is the list of the replies of
  the pipeline's commands, here of one push, and the check reads the length of that list.
\<close>

definition add_account :: "('e, 'o, 'a, 'p) Domain \<Rightarrow> RedisExecutionDatabase \<Rightarrow> 'a \<Rightarrow> RedisExecutionDatabase" where
  "add_account dm db account =
     (let (n, server) = rpush (redis db) (key_accounts db @ Account_id dm account)
                          (serialize dm (Account_last_event_c dm account));
          reply = [n];
          db1 = db\<lparr>redis := server\<rparr>;
          db2 = (if length reply > 1
                 then log_to ERROR (''The '' @ Account_id dm account
                        @ '' already existed in the accounts and was appended to.'') db1
                 else db1)
      in log_to DEBUG (''Added Account(id='' @ Account_id dm account @ '').'') db2)"

definition add_order :: "('e, 'o, 'a, 'p) Domain \<Rightarrow> RedisExecutionDatabase \<Rightarrow> 'o \<Rightarrow> RedisExecutionDatabase" where
  "add_order dm db ord =
     (let last_event = serialize dm (Order_last_event_c dm ord);
          (reply, server) = rpush (redis db) (key_orders db @ Order_client_order_id dm ord) last_event;
          db1 = db\<lparr>redis := server\<rparr>
      in if reply > 1
         then log_to ERROR (''The '' @ Order_client_order_id dm ord
                @ '' already existed in the orders and was appended to.'') db1
         else db1)"

definition add_position :: "('e, 'o, 'a, 'p) Domain \<Rightarrow> RedisExecutionDatabase \<Rightarrow> 'p \<Rightarrow> RedisExecutionDatabase" where
  "add_position dm db position =
     (let last_event = serialize dm (Position_last_event_c dm position);
          (reply, server) = rpush (redis db) (key_positions db @ Position_id dm position) last_event;
          db1 = db\<lparr>redis := server\<rparr>;
          db2 = (if reply > 1
                 then log_to ERROR (''The '' @ Position_id dm position
                        @ '' already existed in the index_broker_position and was overwritten.'') db1
                 else db1)
      in log_to DEBUG (''Added Position(id='' @ Position_id dm position @ '').'') db2)"

definition update_account :: "('e, 'o, 'a, 'p) Domain \<Rightarrow> RedisExecutionDatabase \<Rightarrow> 'a \<Rightarrow> RedisExecutionDatabase" where
  "update_account dm db account =
     (let serialized_event = serialize dm (Account_last_event_c dm account);
          (reply, server) = rpush (redis db) (key_accounts db @ Account_id dm account) serialized_event
      in log_to DEBUG (''Updated Account(id='' @ Account_id dm account @ '').'')
           (db\<lparr>redis := server\<rparr>))"

definition update_order :: "('e, 'o, 'a, 'p) Domain \<Rightarrow> RedisExecutionDatabase \<Rightarrow> 'o \<Rightarrow> RedisExecutionDatabase" where
  "update_order dm db ord =
     (let serialized_event = serialize dm (Order_last_event_c dm ord);
          (reply, server) = rpush (redis db) (key_orders db @ Order_client_order_id dm ord) serialized_event;
          db1 = db\<lparr>redis := server\<rparr>;
          db2 = (if reply = 1
                 then log_to ERROR (''The updated Order(id='' @ Order_client_order_id dm ord
                        @ '') did not already exist.'') db1
                 else db1)
      in log_to DEBUG (''Updated Order(id='' @ Order_client_order_id dm ord @ '').'') db2)"

definition update_position :: "('e, 'o, 'a, 'p) Domain \<Rightarrow> RedisExecutionDatabase \<Rightarrow> 'p \<Rightarrow> RedisExecutionDatabase" where
  "update_position dm db position =
     (let serialized_event = serialize dm (Position_last_event_c dm position);
          (reply, server) = rpush (redis db) (key_positions db @ Position_id dm position) serialized_event;
          db1 = db\<lparr>redis := server\<rparr>;
          db2 = (if reply = 1
                 then log_to ERROR (''The updated Position(id='' @ Position_id dm position
                        @ '') did not already exist.'') db1
                 else db1)
      in log_to DEBUG (''Updated Position(id='' @ Position_id dm position @ '').'') db2)"

text \<open>
  What a call has sent to the logger: the entries of the log after the call that were
  not there before it, and whether one of them is at the error level (the integrity
  check's message is the only one these calls send at that level).
\<close>

definition logged_by :: "RedisExecutionDatabase \<Rightarrow> RedisExecutionDatabase \<Rightarrow> (LogLevel \<times> string) list" where
  "logged_by before after = drop (length (logged before)) (logged after)"

definition integrity_error_logged :: "RedisExecutionDatabase \<Rightarrow> RedisExecutionDatabase \<Rightarrow> bool" where
  "integrity_error_logged before after = (ERROR \<in> fst ` set (logged_by before after))"

section \<open>Example inputs\<close>

text \<open>
  Inputs for the closed examples further down: an instrument with two price decimals,
  the empty book \<^verbatim>\<open>OrderBook.create\<close> returns for it, orders and deltas.
\<close>

definition example_instrument :: Instrument where
  "example_instrument =
     \<lparr>instrument_ident = ''AUD/USD.SIM'', instrument_price_precision = 2,
      instrument_size_precision = 0\<rparr>"

definition example_book :: "OrderBookLevel \<Rightarrow> OrderBook" where
  "example_book lv =
     \<lparr>instrument_id = ''AUD/USD.SIM'', level = lv, price_precision = 2, size_precision = 0,
      bids = Ladder_init True 2 0, asks = Ladder_init False 2 0,
      last_update_timestamp_ns = 0\<rparr>"

definition example_order :: "rat \<Rightarrow> rat \<Rightarrow> OrderSide \<Rightarrow> string \<Rightarrow> Order" where
  "example_order p v sd i = \<lparr>price = p, volume = v, side = sd, order_id = i\<rparr>"

definition example_delta :: "OrderBookLevel \<Rightarrow> OrderBookDeltaType \<Rightarrow> Order \<Rightarrow> int \<Rightarrow> OrderBookDelta" where
  "example_delta lv ty ord ts =
     \<lparr>delta_level = lv, delta_type = ty, delta_order = ord, delta_timestamp_ns = ts\<rparr>"


text \<open>
  An L1 book that has received one \<^verbatim>\<open>update\<close>, with a SELL order at 100.
\<close>

definition example_asked_book :: OrderBook where
  "example_asked_book = L1OrderBook_update (example_book L1) (example_order 100 1 SELL ''a'')"

text \<open>
  A domain for the Redis database: events are their own serialization, an order is the
  name of its class with the events applied to it, an account and a position are the
  events applied to them; and a server holding four orders, an account and a position.
\<close>

definition example_domain :: "(string, string \<times> string list, string list, string list) Domain" where
  "example_domain =
     \<lparr>serialize = (\<lambda>e. e),
      deserialize = (\<lambda>v. v),
      is_OrderInitialized = (\<lambda>e. take 5 e = ''init:''),
      is_OrderFilled = (\<lambda>e. take 5 e = ''fill:''),
      order_type = (\<lambda>e. if e = ''init:MARKET'' then MARKET
                        else if e = ''init:LIMIT'' then LIMIT
                        else if e = ''init:STOP_MARKET'' then STOP_MARKET
                        else if e = ''init:STOP_LIMIT'' then STOP_LIMIT
                        else OTHER_ORDER_TYPE),
      MarketOrder_create = (\<lambda>e. (''MarketOrder'', [e])),
      LimitOrder_create = (\<lambda>e. (''LimitOrder'', [e])),
      StopMarketOrder_create = (\<lambda>e. (''StopMarketOrder'', [e])),
      StopLimitOrder_create = (\<lambda>e. (''StopLimitOrder'', [e])),
      Order_apply = (\<lambda>ord e. (fst ord, snd ord @ [e])),
      Order_client_order_id = (\<lambda>ord. ''O-1''),
      Order_last_event_c = (\<lambda>ord. last (snd ord)),
      Account_new = (\<lambda>e. [e]),
      Account_apply = (\<lambda>account e. account @ [e]),
      Account_id = (\<lambda>account. ''SIM-001''),
      Account_last_event_c = last,
      Position_new = (\<lambda>e. [e]),
      Position_apply = (\<lambda>position e. position @ [e]),
      Position_id = (\<lambda>position. ''P-1''),
      Position_last_event_c = last\<rparr>"

definition example_server :: "string \<Rightarrow> bytes list" where
  "example_server name =
     (if name = ''Trader-T:Orders:O-1'' then [''init:MARKET'', ''submitted'']
      else if name = ''Trader-T:Orders:O-2'' then [''init:LIMIT'', ''submitted'', ''accepted'']
      else if name = ''Trader-T:Orders:O-3'' then [''init:STOP_MARKET'']
      else if name = ''Trader-T:Orders:O-4'' then [''init:STOP_LIMIT'', ''submitted'']
      else if name = ''Trader-T:Accounts:SIM-001'' then [''state:1'', ''state:2'']
      else if name = ''Trader-T:Positions:P-1'' then [''fill:1'', ''fill:2'']
      else [])"

text \<open>
  An L1 book that has received one quote (bid 100, ask 101), and a trade tick whose
  seller hit the bid at 102, one whose buyer lifted the offer at 99.
\<close>

definition example_quoted_book :: L1OrderBook where
  "example_quoted_book =
     update_top (L1OrderBook_init 2 0) (Quote \<lparr>bid = 100, ask = 101, bid_size = 1, ask_size = 1\<rparr>)"

text \<open>
  An L1 book that has received \<^verbatim>\<open>update\<close> with a SELL order at 101 and then, through
  \<^verbatim>\<open>update_top\<close>, the quotes 98 / 99 and 110 / 120.
\<close>

definition example_updated_then_quoted_book :: L1OrderBook where
  "example_updated_then_quoted_book =
     update_top
       (update_top
          (store_update (L1OrderBook_init 2 0) (example_order 101 1 SELL ''a''))
          (Quote \<lparr>bid = 98, ask = 99, bid_size = 1, ask_size = 1\<rparr>))
       (Quote \<lparr>bid = 110, ask = 120, bid_size = 1, ask_size = 1\<rparr>)"

definition example_sell_tick :: Tick where
  "example_sell_tick =
     Trade \<lparr>trade_price = 102, trade_size = 1, aggressor_side = AggressorSide_SELL\<rparr>"

definition example_buy_tick :: Tick where
  "example_buy_tick =
     Trade \<lparr>trade_price = 99, trade_size = 1, aggressor_side = AggressorSide_BUY\<rparr>"

section \<open>Properties of the execution databases\<close>

lemma Bypass_calls_nothing: "Bypass_calls db cs = db"
  by (induction cs arbitrary: db)
     (simp_all add: Bypass_call_def Bypass_flush_def Bypass_delete_strategy_def
        Bypass_add_account_def Bypass_add_order_def Bypass_add_position_def
        Bypass_update_account_def Bypass_update_order_def Bypass_update_position_def
        Bypass_update_strategy_def split: Command.split)

text \<open>
  Claim C10. Whatever sequence of flush, delete, add and update calls a bypass database
  has received, it is the database it was (every such call is a no-op), each bulk load
  returns the empty dictionary and each load of one entity returns \<^verbatim>\<open>None\<close>.
\<close>

theorem bypass_database_stores_nothing:
  "Bypass_calls db cs = db
   \<and> Bypass_load_accounts (Bypass_calls db cs) = Map.empty
   \<and> Bypass_load_orders (Bypass_calls db cs) = Map.empty
   \<and> Bypass_load_positions (Bypass_calls db cs) = Map.empty
   \<and> Bypass_load_strategy (Bypass_calls db cs) strategy_id = Map.empty
   \<and> Bypass_load_account (Bypass_calls db cs) account_id = None
   \<and> Bypass_load_order (Bypass_calls db cs) client_order_id = None
   \<and> Bypass_load_position (Bypass_calls db cs) position_id = None"
  by (simp add: Bypass_calls_nothing Bypass_load_accounts_def Bypass_load_orders_def
        Bypass_load_positions_def Bypass_load_strategy_def Bypass_load_account_def
        Bypass_load_order_def Bypass_load_position_def)

text \<open>
  Claim C8, as stated, fails for \<^verbatim>\<open>add\<close>: the first push under a key is answered with
  1, and \<^verbatim>\<open>add_order\<close> logs no error then (its check is \<^verbatim>\<open>reply > 1\<close>).
\<close>

theorem add_order_reply_one_logs_nothing:
  "fst (rpush (redis (Redis_init ''T'' (\<lambda>name. [])))
          (key_orders (Redis_init ''T'' (\<lambda>name. []))
             @ Order_client_order_id example_domain (''LimitOrder'', [''init:LIMIT'']))
          (serialize example_domain
             (Order_last_event_c example_domain (''LimitOrder'', [''init:LIMIT''])))) = 1
   \<and> \<not> integrity_error_logged (Redis_init ''T'' (\<lambda>name. []))
         (add_order example_domain (Redis_init ''T'' (\<lambda>name. []))
            (''LimitOrder'', [''init:LIMIT'']))"
  by (simp add: integrity_error_logged_def logged_by_def add_order_def rpush_def log_to_def
        Redis_init_def example_domain_def)

text \<open>
  Claim C8, amended. For orders and positions: \<^verbatim>\<open>add\<close> logs the integrity error exactly
  when the reply of the push is greater than 1, that is when the key already held a list;
  \<^verbatim>\<open>update\<close> logs it exactly when the reply is 1, that is when the key held nothing.
\<close>

theorem add_update_integrity_check:
  "(integrity_error_logged db (add_order dm db ord)
      \<longleftrightarrow> 1 < fst (rpush (redis db) (key_orders db @ Order_client_order_id dm ord)
                      (serialize dm (Order_last_event_c dm ord))))
   \<and> (integrity_error_logged db (add_order dm db ord)
      \<longleftrightarrow> redis db (key_orders db @ Order_client_order_id dm ord) \<noteq> [])
   \<and> (integrity_error_logged db (add_position dm db pos)
      \<longleftrightarrow> 1 < fst (rpush (redis db) (key_positions db @ Position_id dm pos)
                      (serialize dm (Position_last_event_c dm pos))))
   \<and> (integrity_error_logged db (add_position dm db pos)
      \<longleftrightarrow> redis db (key_positions db @ Position_id dm pos) \<noteq> [])
   \<and> (integrity_error_logged db (update_order dm db ord)
      \<longleftrightarrow> fst (rpush (redis db) (key_orders db @ Order_client_order_id dm ord)
                  (serialize dm (Order_last_event_c dm ord))) = 1)
   \<and> (integrity_error_logged db (update_order dm db ord)
      \<longleftrightarrow> redis db (key_orders db @ Order_client_order_id dm ord) = [])
   \<and> (integrity_error_logged db (update_position dm db pos)
      \<longleftrightarrow> fst (rpush (redis db) (key_positions db @ Position_id dm pos)
                  (serialize dm (Position_last_event_c dm pos))) = 1)
   \<and> (integrity_error_logged db (update_position dm db pos)
      \<longleftrightarrow> redis db (key_positions db @ Position_id dm pos) = [])"
  by (auto simp add: integrity_error_logged_def logged_by_def add_order_def add_position_def
        update_order_def update_position_def rpush_def log_to_def Let_def)

lemma apply_events_foldl: "apply_events ap de x bs = foldl ap x (map de bs)"
  by (induction bs arbitrary: x) simp_all

text \<open>
  Claim C9. \<^verbatim>\<open>load_order\<close> returns \<^verbatim>\<open>None\<close> for an empty event list; otherwise, the
  first event being an \<^verbatim>\<open>OrderInitialized\<close>, it builds the order of the class its
  \<^verbatim>\<open>order_type\<close> names (MARKET, LIMIT, STOP_MARKET, STOP_LIMIT) from that event and
  folds \<^verbatim>\<open>apply\<close> over the remaining events, from the left and in their order.
  \<^verbatim>\<open>load_account\<close> and \<^verbatim>\<open>load_position\<close> do the same from the first event (for the
  position an \<^verbatim>\<open>OrderFilled\<close>).
\<close>

theorem load_is_fold_of_apply:
  "(redis db (key_orders db @ cid) = [] \<longrightarrow> load_order dm db cid = Inr None)
   \<and> (redis db (key_orders db @ cid) = first # rest
        \<and> is_OrderInitialized dm (deserialize dm first)
        \<and> order_type dm (deserialize dm first) = MARKET
      \<longrightarrow> load_order dm db cid =
            Inr (Some (foldl (Order_apply dm) (MarketOrder_create dm (deserialize dm first))
                         (map (deserialize dm) rest))))
   \<and> (redis db (key_orders db @ cid) = first # rest
        \<and> is_OrderInitialized dm (deserialize dm first)
        \<and> order_type dm (deserialize dm first) = LIMIT
      \<longrightarrow> load_order dm db cid =
            Inr (Some (foldl (Order_apply dm) (LimitOrder_create dm (deserialize dm first))
                         (map (deserialize dm) rest))))
   \<and> (redis db (key_orders db @ cid) = first # rest
        \<and> is_OrderInitialized dm (deserialize dm first)
        \<and> order_type dm (deserialize dm first) = STOP_MARKET
      \<longrightarrow> load_order dm db cid =
            Inr (Some (foldl (Order_apply dm) (StopMarketOrder_create dm (deserialize dm first))
                         (map (deserialize dm) rest))))
   \<and> (redis db (key_orders db @ cid) = first # rest
        \<and> is_OrderInitialized dm (deserialize dm first)
        \<and> order_type dm (deserialize dm first) = STOP_LIMIT
      \<longrightarrow> load_order dm db cid =
            Inr (Some (foldl (Order_apply dm) (StopLimitOrder_create dm (deserialize dm first))
                         (map (deserialize dm) rest))))
   \<and> (redis db (key_accounts db @ aid) = [] \<longrightarrow> load_account dm db aid = None)
   \<and> (redis db (key_accounts db @ aid) = afirst # arest
      \<longrightarrow> load_account dm db aid =
            Some (foldl (Account_apply dm) (Account_new dm (deserialize dm afirst))
                    (map (deserialize dm) arest)))
   \<and> (redis db (key_positions db @ pid) = [] \<longrightarrow> load_position dm db pid = Inr None)
   \<and> (redis db (key_positions db @ pid) = pfirst # prest
        \<and> is_OrderFilled dm (deserialize dm pfirst)
      \<longrightarrow> load_position dm db pid =
            Inr (Some (foldl (Position_apply dm) (Position_new dm (deserialize dm pfirst))
                         (map (deserialize dm) prest))))"
  by (simp add: load_order_def load_account_def load_position_def lrange_all_def
        apply_events_foldl Let_def)

lemmas example_db_eval = Redis_init_def example_server_def example_domain_def

theorem load_is_fold_of_apply_witness:
  "load_order example_domain (Redis_init ''T'' example_server) ''O-0'' = Inr None
   \<and> load_order example_domain (Redis_init ''T'' example_server) ''O-1''
       = Inr (Some (''MarketOrder'', [''init:MARKET'', ''submitted'']))
   \<and> load_order example_domain (Redis_init ''T'' example_server) ''O-2''
       = Inr (Some (''LimitOrder'', [''init:LIMIT'', ''submitted'', ''accepted'']))
   \<and> load_order example_domain (Redis_init ''T'' example_server) ''O-3''
       = Inr (Some (''StopMarketOrder'', [''init:STOP_MARKET'']))
   \<and> load_order example_domain (Redis_init ''T'' example_server) ''O-4''
       = Inr (Some (''StopLimitOrder'', [''init:STOP_LIMIT'', ''submitted'']))
   \<and> load_account example_domain (Redis_init ''T'' example_server) ''SIM-000'' = None
   \<and> load_account example_domain (Redis_init ''T'' example_server) ''SIM-001''
       = Some [''state:1'', ''state:2'']
   \<and> load_position example_domain (Redis_init ''T'' example_server) ''P-0'' = Inr None
   \<and> load_position example_domain (Redis_init ''T'' example_server) ''P-1''
       = Inr (Some [''fill:1'', ''fill:2''])"
proof -
  let ?db = "Redis_init ''T'' example_server"
  note contract = load_is_fold_of_apply [where db = "?db" and dm = example_domain]
  have none: "load_order example_domain ?db ''O-0'' = Inr None"
    "load_account example_domain ?db ''SIM-000'' = None"
    "load_position example_domain ?db ''P-0'' = Inr None"
    using contract [where cid = "''O-0''" and aid = "''SIM-000''" and pid = "''P-0''"]
    by (simp_all add: example_db_eval)
  have o1: "load_order example_domain ?db ''O-1''
       = Inr (Some (''MarketOrder'', [''init:MARKET'', ''submitted'']))"
    using contract [where cid = "''O-1''" and first = "''init:MARKET''" and rest = "[''submitted'']"]
    by (simp add: example_db_eval)
  have o2: "load_order example_domain ?db ''O-2''
       = Inr (Some (''LimitOrder'', [''init:LIMIT'', ''submitted'', ''accepted'']))"
    using contract [where cid = "''O-2''" and first = "''init:LIMIT''"
                 and rest = "[''submitted'', ''accepted'']"]
    by (simp add: example_db_eval)
  have o3: "load_order example_domain ?db ''O-3''
       = Inr (Some (''StopMarketOrder'', [''init:STOP_MARKET'']))"
    using contract [where cid = "''O-3''" and first = "''init:STOP_MARKET''" and rest = "[]"]
    by (simp add: example_db_eval)
  have o4: "load_order example_domain ?db ''O-4''
       = Inr (Some (''StopLimitOrder'', [''init:STOP_LIMIT'', ''submitted'']))"
    using contract [where cid = "''O-4''" and first = "''init:STOP_LIMIT''" and rest = "[''submitted'']"]
    by (simp add: example_db_eval)
  have a1: "load_account example_domain ?db ''SIM-001'' = Some [''state:1'', ''state:2'']"
    using contract [where aid = "''SIM-001''" and afirst = "''state:1''" and arest = "[''state:2'']"]
    by (simp add: example_db_eval)
  have p1: "load_position example_domain ?db ''P-1'' = Inr (Some [''fill:1'', ''fill:2''])"
    using contract [where pid = "''P-1''" and pfirst = "''fill:1''" and prest = "[''fill:2'']"]
    by (simp add: example_db_eval)
  from none o1 o2 o3 o4 a1 p1 show ?thesis by simp
qed

section \<open>Properties of the order book\<close>

lemma floor_numeral_quotient:
  "\<lfloor>(numeral a / numeral b :: rat)\<rfloor> = numeral a div numeral b"
proof -
  have "\<lfloor>(of_int (numeral a) / of_int (numeral b) :: rat)\<rfloor> = numeral a div numeral b"
    by (rule floor_divide_of_int_eq)
  then show ?thesis by simp
qed

lemmas quantize_eval = quantize_def round_half_even_def floor_numeral_quotient

lemmas book_eval = p_add_def p_update_def p_delete_def Ladder_add_def Ladder_update_def
  Ladder_delete_def Ladder_prices_def Ladder_init_def Ladder_top_def holds_id_def
  example_book_def example_order_def OrderBook_add_def OrderBook_update_def
  OrderBook_delete_def self_add_def self_update_def self_delete_def
  Ladder_quantize_def quantize_eval Let_def

lemmas format_eval = format_f_def round_half_even_def str_of_nat.simps digit_char_def Let_def

lemma create_example_book: "OrderBook_create example_instrument lv = Inr (example_book lv)"
  by (simp add: OrderBook_create_def OrderBook_init_def example_instrument_def example_book_def)

subsection \<open>Top of book\<close>

text \<open>
  Claim C7. \<^verbatim>\<open>best_bid_price\<close> and \<^verbatim>\<open>best_bid_qty\<close> return \<^verbatim>\<open>None\<close> exactly when the
  bid side has no level, \<^verbatim>\<open>best_ask_price\<close> and \<^verbatim>\<open>best_ask_qty\<close> exactly when the ask
  side has none, \<^verbatim>\<open>spread\<close> and \<^verbatim>\<open>midpoint\<close> exactly when at least one side has none.
  With both sides non-empty the spread is the best ask price minus the best bid price and
  the midpoint is their average. A book just created returns \<^verbatim>\<open>None\<close> for all six.
\<close>

theorem top_of_book_none_iff_side_empty:
  "(best_bid_price b = None \<longleftrightarrow> levels (bids b) = [])
   \<and> (best_bid_qty b = None \<longleftrightarrow> levels (bids b) = [])
   \<and> (best_ask_price b = None \<longleftrightarrow> levels (asks b) = [])
   \<and> (best_ask_qty b = None \<longleftrightarrow> levels (asks b) = [])
   \<and> (spread b = None \<longleftrightarrow> levels (bids b) = [] \<or> levels (asks b) = [])
   \<and> (midpoint b = None \<longleftrightarrow> levels (bids b) = [] \<or> levels (asks b) = [])
   \<and> (levels (bids b) \<noteq> [] \<and> levels (asks b) \<noteq> [] \<longrightarrow>
        (\<exists>pb pa. best_bid_price b = Some pb \<and> best_ask_price b = Some pa
           \<and> spread b = Some (pa - pb) \<and> midpoint b = Some ((pa + pb) / 2)))
   \<and> (OrderBook_create instrument lv = Inr fresh \<longrightarrow>
        best_bid_price fresh = None \<and> best_bid_qty fresh = None
        \<and> best_ask_price fresh = None \<and> best_ask_qty fresh = None
        \<and> spread fresh = None \<and> midpoint fresh = None)"
  by (auto simp add: best_bid_price_def best_bid_qty_def best_ask_price_def best_ask_qty_def
        spread_def midpoint_def Ladder_top_def OrderBook_create_def OrderBook_init_def
        Ladder_init_def split: list.splits if_splits)

theorem top_of_book_none_iff_side_empty_witness:
  "levels (bids (OrderBook_add (OrderBook_add (example_book L3) (example_order 100 5 BUY ''a''))
                    (example_order 101 3 SELL ''b''))) \<noteq> []
   \<and> levels (asks (OrderBook_add (OrderBook_add (example_book L3) (example_order 100 5 BUY ''a''))
                    (example_order 101 3 SELL ''b''))) \<noteq> []
   \<and> spread (OrderBook_add (OrderBook_add (example_book L3) (example_order 100 5 BUY ''a''))
                    (example_order 101 3 SELL ''b'')) = Some 1
   \<and> midpoint (OrderBook_add (OrderBook_add (example_book L3) (example_order 100 5 BUY ''a''))
                    (example_order 101 3 SELL ''b'')) = Some (201 / 2)
   \<and> OrderBook_create example_instrument L2 = Inr (example_book L2)
   \<and> best_bid_price (example_book L2) = None
   \<and> spread (example_book L2) = None"
  using top_of_book_none_iff_side_empty
          [of "OrderBook_add (OrderBook_add (example_book L3) (example_order 100 5 BUY ''a''))
                 (example_order 101 3 SELL ''b'')"
              example_instrument L2 "example_book L2"]
  by (simp add: book_eval create_example_book best_bid_price_def best_ask_price_def)

subsection \<open>Applying data\<close>

lemma apply_delta_checks_level:
  "delta_level d \<noteq> level b \<Longrightarrow> apply_delta b d = Inl (ValueError, b)"
  by (simp add: apply_delta_def Condition_equal_def)

lemma apply_checks_level_of_snapshot:
  "snapshot_level s \<noteq> level b \<Longrightarrow> OrderBook_apply new_id b (Snapshot s) = Inl (ValueError, b)"
  by (simp add: OrderBook_apply_def Condition_call_def apply_snapshot_def Condition_equal_def)

lemma apply_checks_level_of_deltas:
  "deltas_level ds \<noteq> level b \<Longrightarrow> OrderBook_apply new_id b (Deltas ds) = Inl (ValueError, b)"
  by (simp add: OrderBook_apply_def Condition_call_def apply_deltas_def Condition_equal_def)

lemma apply_of_delta_ignores_level:
  "OrderBook_apply new_id b (Delta d) = p_apply_delta b d"
  by (simp add: OrderBook_apply_def Condition_call_def)

text \<open>
  Claim C1 does not hold of the code for a single delta. \<^verbatim>\<open>apply\<close> on an L2 book, given
  an \<^verbatim>\<open>OrderBookDelta\<close> of level L3, raises nothing: it adds the order and takes the
  timestamp. (A snapshot and a batch of another level are rejected, by the checks of
  \<^verbatim>\<open>apply_snapshot\<close> and \<^verbatim>\<open>apply_deltas\<close>: the lemmas above.)
\<close>

theorem apply_accepts_delta_of_other_level:
  "data_level (Delta (example_delta L3 ADD (example_order 100 5 BUY ''a'') 1))
     \<noteq> level (example_book L2)
   \<and> raised (OrderBook_apply (\<lambda>k. []) (example_book L2)
               (Delta (example_delta L3 ADD (example_order 100 5 BUY ''a'') 1))) = None
   \<and> OrderBook_apply (\<lambda>k. []) (example_book L2)
        (Delta (example_delta L3 ADD (example_order 100 5 BUY ''a'') 1))
      = Inr ((example_book L2)
          \<lparr>bids := (bids (example_book L2))
             \<lparr>levels := [\<lparr>level_price = 100, orders = [example_order 100 5 BUY ''100.00'']\<rparr>]\<rparr>,
           last_update_timestamp_ns := 1\<rparr>)"
  by (simp add: OrderBook_apply_def Condition_call_def p_apply_delta_def book_eval
        example_delta_def L2OrderBook_add_def L2OrderBook_p_process_order_def format_eval
        data_level_def raised_def)

subsection \<open>The timestamp\<close>

lemma p_ops_keep:
  "last_update_timestamp_ns (p_add b ord) = last_update_timestamp_ns b"
  "last_update_timestamp_ns (p_update b ord) = last_update_timestamp_ns b"
  "last_update_timestamp_ns (p_delete b ord) = last_update_timestamp_ns b"
  "last_update_timestamp_ns (OrderBook_clear_bids b) = last_update_timestamp_ns b"
  "last_update_timestamp_ns (OrderBook_clear_asks b) = last_update_timestamp_ns b"
  "level (p_add b ord) = level b"
  "level (p_update b ord) = level b"
  "level (p_delete b ord) = level b"
  "level (OrderBook_clear_bids b) = level b"
  "level (OrderBook_clear_asks b) = level b"
  by (simp_all add: p_add_def p_update_def p_delete_def OrderBook_clear_bids_def
        OrderBook_clear_asks_def split: OrderSide.split)


lemma self_add_keeps:
  "last_update_timestamp_ns (book_after (self_add b ord)) = last_update_timestamp_ns b"
  "level (book_after (self_add b ord)) = level b"
  by (simp_all add: self_add_def L1OrderBook_add_def L2OrderBook_add_def OrderBook_add_def
        book_after_def p_ops_keep split: OrderBookLevel.split)


lemma p_apply_delta_timestamp:
  "p_apply_delta b d = Inr b' \<Longrightarrow> last_update_timestamp_ns b' = delta_timestamp_ns d"
  by (auto simp add: p_apply_delta_def split: OrderBookDeltaType.splits sum.splits)

lemma p_apply_delta_raised_timestamp:
  "p_apply_delta b d = Inl (e, b') \<Longrightarrow> last_update_timestamp_ns b' = last_update_timestamp_ns b"
  using self_add_keeps(1) [of b "delta_order d"]
  by (auto simp add: p_apply_delta_def book_after_def split: OrderBookDeltaType.splits sum.splits)

lemma apply_each_delta_timestamp:
  "apply_each_delta b ds = Inr b' \<Longrightarrow>
     last_update_timestamp_ns b' =
       (if ds = [] then last_update_timestamp_ns b else delta_timestamp_ns (last ds))"
proof (induction ds arbitrary: b)
  case Nil
  then show ?case by simp
next
  case (Cons d ds)
  from Cons.prems obtain b1
    where b1: "p_apply_delta b d = Inr b1" and rest: "apply_each_delta b1 ds = Inr b'"
    by (auto split: sum.splits)
  from Cons.IH [OF rest] p_apply_delta_timestamp [OF b1] show ?case by simp
qed

lemma apply_each_delta_monotone:
  "\<forall>d\<in>set ds. t \<le> delta_timestamp_ns d \<Longrightarrow> t \<le> last_update_timestamp_ns b \<Longrightarrow>
     t \<le> last_update_timestamp_ns (book_after (apply_each_delta b ds))"
proof (induction ds arbitrary: b)
  case Nil
  then show ?case by (simp add: book_after_def)
next
  case (Cons d ds)
  show ?case
  proof (cases "p_apply_delta b d")
    case (Inl eb)
    then obtain e b1 where "p_apply_delta b d = Inl (e, b1)" by (cases eb) simp
    with Cons.prems p_apply_delta_raised_timestamp [of b d e b1] show ?thesis
      by (simp add: book_after_def)
  next
    case (Inr b1)
    with Cons.prems p_apply_delta_timestamp [OF Inr] have "t \<le> last_update_timestamp_ns b1"
      by simp
    with Cons.IH [of b1] Cons.prems Inr show ?thesis by simp
  qed
qed

lemma apply_delta_timestamp:
  "apply_delta b delta = Inr b' \<Longrightarrow> last_update_timestamp_ns b' = delta_timestamp_ns delta"
  by (cases "delta_level delta = level b")
     (simp_all add: apply_delta_def Condition_equal_def p_apply_delta_timestamp)

lemma apply_deltas_timestamp:
  "apply_deltas b ds = Inr b' \<Longrightarrow>
     last_update_timestamp_ns b' =
       (if deltas ds = [] then last_update_timestamp_ns b
        else delta_timestamp_ns (last (deltas ds)))"
  by (cases "deltas_level ds = level b")
     (simp_all add: apply_deltas_def Condition_equal_def apply_each_delta_timestamp)

lemma apply_snapshot_timestamp:
  "apply_snapshot new_id b snapshot = Inr b' \<Longrightarrow>
     last_update_timestamp_ns b' = snapshot_timestamp_ns snapshot"
  by (cases "snapshot_level snapshot = level b")
     (auto simp add: apply_snapshot_def Condition_equal_def)

lemma apply_delta_monotone:
  "last_update_timestamp_ns b \<le> delta_timestamp_ns delta \<Longrightarrow>
     last_update_timestamp_ns b \<le> last_update_timestamp_ns (book_after (apply_delta b delta))"
  using apply_each_delta_monotone [of "[delta]" "last_update_timestamp_ns b" b]
  by (cases "delta_level delta = level b"; cases "p_apply_delta b delta")
     (simp_all add: apply_delta_def Condition_equal_def book_after_def)

lemma apply_deltas_monotone:
  "\<forall>d\<in>set (deltas ds). last_update_timestamp_ns b \<le> delta_timestamp_ns d \<Longrightarrow>
     last_update_timestamp_ns b \<le> last_update_timestamp_ns (book_after (apply_deltas b ds))"
  using apply_each_delta_monotone [of "deltas ds" "last_update_timestamp_ns b" b]
  by (cases "deltas_level ds = level b")
     (simp_all add: apply_deltas_def Condition_equal_def book_after_def)

lemma apply_snapshot_monotone:
  "last_update_timestamp_ns b \<le> snapshot_timestamp_ns snapshot \<Longrightarrow>
     last_update_timestamp_ns b
       \<le> last_update_timestamp_ns (book_after (apply_snapshot new_id b snapshot))"
  by (cases "snapshot_level snapshot = level b")
     (simp_all add: apply_snapshot_def Condition_equal_def book_after_def)

lemma returned_book: "raised r = None \<Longrightarrow> r = Inr (book_after r)"
  by (cases r) (auto simp add: raised_def book_after_def)

text \<open>
  Claim C3, as stated, fails: the timestamp of the data is assigned, not compared. A
  delta stamped 3 applied to a book stamped 5 returns normally and leaves the book
  stamped 3.
\<close>

theorem timestamp_decreases_with_older_delta:
  "raised (apply_delta ((example_book L3)\<lparr>last_update_timestamp_ns := 5\<rparr>)
             (example_delta L3 ADD (example_order 100 5 BUY ''a'') 3)) = None
   \<and> last_update_timestamp_ns ((example_book L3)\<lparr>last_update_timestamp_ns := 5\<rparr>) = 5
   \<and> last_update_timestamp_ns
        (book_after (apply_delta ((example_book L3)\<lparr>last_update_timestamp_ns := 5\<rparr>)
                       (example_delta L3 ADD (example_order 100 5 BUY ''a'') 3))) = 3"
  by (simp add: apply_delta_def Condition_equal_def p_apply_delta_def book_eval
        example_delta_def raised_def book_after_def)

text \<open>
  Claim C3, amended. A call of \<^verbatim>\<open>apply_delta\<close> or \<^verbatim>\<open>apply_snapshot\<close> that returns
  leaves \<^verbatim>\<open>last_update_timestamp_ns\<close> equal to the timestamp of its data, and a call of
  \<^verbatim>\<open>apply_deltas\<close> that returns leaves it equal to the timestamp of the last delta of
  the batch (unchanged for an empty batch). Hence the value after a call, returned or
  raised, is at least the value before it whenever the timestamps of the data applied
  (the delta's, those of all deltas of the batch, the snapshot's) are at least the value
  before it.
\<close>

theorem timestamp_is_the_last_applied:
  "(raised (apply_delta b delta) = None \<longrightarrow>
        last_update_timestamp_ns (book_after (apply_delta b delta)) = delta_timestamp_ns delta)
   \<and> (raised (apply_deltas b ds) = None \<longrightarrow>
        last_update_timestamp_ns (book_after (apply_deltas b ds)) =
          (if deltas ds = [] then last_update_timestamp_ns b
           else delta_timestamp_ns (last (deltas ds))))
   \<and> (raised (apply_snapshot new_id b snapshot) = None \<longrightarrow>
        last_update_timestamp_ns (book_after (apply_snapshot new_id b snapshot))
          = snapshot_timestamp_ns snapshot)
   \<and> (last_update_timestamp_ns b \<le> delta_timestamp_ns delta \<longrightarrow>
        last_update_timestamp_ns b \<le> last_update_timestamp_ns (book_after (apply_delta b delta)))
   \<and> ((\<forall>d\<in>set (deltas ds). last_update_timestamp_ns b \<le> delta_timestamp_ns d) \<longrightarrow>
        last_update_timestamp_ns b \<le> last_update_timestamp_ns (book_after (apply_deltas b ds)))
   \<and> (last_update_timestamp_ns b \<le> snapshot_timestamp_ns snapshot \<longrightarrow>
        last_update_timestamp_ns b
          \<le> last_update_timestamp_ns (book_after (apply_snapshot new_id b snapshot)))"
  apply (intro conjI impI)
       apply (drule returned_book, erule apply_delta_timestamp)
      apply (drule returned_book, erule apply_deltas_timestamp)
     apply (drule returned_book, erule apply_snapshot_timestamp)
    apply (erule apply_delta_monotone)
   apply (erule apply_deltas_monotone)
  apply (erule apply_snapshot_monotone)
  done

theorem timestamp_is_the_last_applied_witness:
  "raised (apply_delta (example_book L3) (example_delta L3 ADD (example_order 100 5 BUY ''a'') 7))
     = None
   \<and> last_update_timestamp_ns
        (book_after (apply_delta (example_book L3)
                       (example_delta L3 ADD (example_order 100 5 BUY ''a'') 7))) = 7
   \<and> raised (apply_deltas (example_book L3)
               \<lparr>deltas_level = L3,
                deltas = [example_delta L3 ADD (example_order 100 5 BUY ''a'') 8,
                          example_delta L3 UPDATE (example_order 100 6 BUY ''a'') 9],
                deltas_timestamp_ns = 9\<rparr>) = None
   \<and> last_update_timestamp_ns
        (book_after (apply_deltas (example_book L3)
               \<lparr>deltas_level = L3,
                deltas = [example_delta L3 ADD (example_order 100 5 BUY ''a'') 8,
                          example_delta L3 UPDATE (example_order 100 6 BUY ''a'') 9],
                deltas_timestamp_ns = 9\<rparr>)) = 9
   \<and> raised (apply_snapshot (\<lambda>k. [])  (example_book L1)
               \<lparr>snapshot_level = L1, snapshot_bids = [(100, 5)], snapshot_asks = [(101, 3)],
                snapshot_timestamp_ns = 4\<rparr>) = None
   \<and> last_update_timestamp_ns
        (book_after (apply_snapshot (\<lambda>k. []) (example_book L1)
               \<lparr>snapshot_level = L1, snapshot_bids = [(100, 5)], snapshot_asks = [(101, 3)],
                snapshot_timestamp_ns = 4\<rparr>)) = 4
   \<and> last_update_timestamp_ns (example_book L3)
       \<le> delta_timestamp_ns (example_delta L3 ADD (example_order 100 5 BUY ''a'') 7)
   \<and> last_update_timestamp_ns (example_book L3)
       \<le> delta_timestamp_ns (example_delta L3 ADD (example_order 100 5 BUY ''a'') 8)
   \<and> last_update_timestamp_ns (example_book L3)
       \<le> delta_timestamp_ns (example_delta L3 UPDATE (example_order 100 6 BUY ''a'') 9)
   \<and> last_update_timestamp_ns (example_book L1) \<le> 4
   \<and> last_update_timestamp_ns (example_book L3)
       \<le> last_update_timestamp_ns
            (book_after (apply_delta (example_book L3)
                           (example_delta L3 ADD (example_order 100 5 BUY ''a'') 7)))"
  using timestamp_is_the_last_applied
          [of "example_book L3" "example_delta L3 ADD (example_order 100 5 BUY ''a'') 7"
              "\<lparr>deltas_level = L3,
                deltas = [example_delta L3 ADD (example_order 100 5 BUY ''a'') 8,
                          example_delta L3 UPDATE (example_order 100 6 BUY ''a'') 9],
                deltas_timestamp_ns = 9\<rparr>"]
        timestamp_is_the_last_applied
          [of "example_book L1" _ _ "\<lambda>k. []"
              "\<lparr>snapshot_level = L1, snapshot_bids = [(100, 5)], snapshot_asks = [(101, 3)],
                snapshot_timestamp_ns = 4\<rparr>"]
  by (simp add: apply_delta_def apply_deltas_def apply_snapshot_def Condition_equal_def
        p_apply_delta_def raised_def book_after_def book_eval example_delta_def)

subsection \<open>Delta composition\<close>




subsection \<open>Formatted prices\<close>

text \<open>
  A price quantized to \<open>P\<close> decimals is read back from its formatted string: two such
  prices with the same string are the same price.
\<close>

lemma digit_cases: "d < 10 \<Longrightarrow> d = 0 \<or> d = 1 \<or> d = 2 \<or> d = 3 \<or> d = 4 \<or> d = 5 \<or> d = 6 \<or> d = 7 \<or> d = 8 \<or> d = (9::nat)"
  by arith

lemma digit_value_digit_char: "d < 10 \<Longrightarrow> digit_value (digit_char d) = d"
  using digit_cases [of d] by (auto simp add: digit_value_def digit_char_def)

lemma digit_char_not_special: "d < 10 \<Longrightarrow> digit_char d \<noteq> CHR ''-'' \<and> digit_char d \<noteq> CHR ''.''"
  using digit_cases [of d] by (auto simp add: digit_char_def)

lemma read_nat_snoc: "read_nat (s @ [c]) = 10 * read_nat s + digit_value c"
  by (simp add: read_nat_def)

lemma read_nat_str_of_nat: "read_nat (str_of_nat n) = n"
proof (induction n rule: str_of_nat.induct)
  case (1 n)
  show ?case
  proof (cases "n < 10")
    case True
    then show ?thesis
      by (subst str_of_nat.simps) (simp add: read_nat_def digit_value_digit_char)
  next
    case False
    with 1 have "read_nat (str_of_nat (n div 10)) = n div 10" by simp
    with False show ?thesis
      by (subst str_of_nat.simps) (simp add: read_nat_snoc digit_value_digit_char)
  qed
qed

lemma str_of_nat_chars: "c \<in> set (str_of_nat n) \<Longrightarrow> c \<noteq> CHR ''-'' \<and> c \<noteq> CHR ''.''"
proof (induction n rule: str_of_nat.induct)
  case (1 n)
  show ?case
  proof (cases "n < 10")
    case True
    with "1.prems" digit_char_not_special [of n] show ?thesis
      by (subst (asm) str_of_nat.simps) simp
  next
    case False
    with "1.prems" have "c \<in> set (str_of_nat (n div 10)) \<or> c = digit_char (n mod 10)"
      by (subst (asm) str_of_nat.simps) auto
    with 1 False digit_char_not_special [of "n mod 10"] show ?thesis by auto
  qed
qed

lemma str_of_nat_nonempty: "str_of_nat n \<noteq> []"
  by (subst str_of_nat.simps) simp

lemma str_of_nat_inj:
  assumes "str_of_nat m = str_of_nat n"
  shows "m = n"
proof -
  from assms have "read_nat (str_of_nat m) = read_nat (str_of_nat n)" by (rule arg_cong)
  then show ?thesis by (simp only: read_nat_str_of_nat)
qed

lemma split_at_mark:
  "c \<notin> set a \<Longrightarrow> c \<notin> set b \<Longrightarrow> a @ c # u = b @ c # v \<Longrightarrow> a = b \<and> u = v"
proof (induction a arbitrary: b)
  case Nil
  then show ?case by (cases b) auto
next
  case (Cons x xs)
  then show ?case by (cases b) auto
qed

lemma read_nat_padded: "read_nat (replicate k (CHR ''0'') @ s) = read_nat s"
proof -
  have "foldl (\<lambda>a c. 10 * a + digit_value c) 0 (replicate k (CHR ''0'')) = 0"
    by (induction k) (simp_all add: replicate_app_Cons_same digit_value_def)
  then show ?thesis by (simp add: read_nat_def)
qed

lemma round_half_even_of_int: "round_half_even (of_int k) = k"
  by (simp add: round_half_even_def)

lemma quantize_quantized:
  assumes "quantized P x"
  shows "quantize P x = x"
proof -
  define k where "k = \<lfloor>x * 10 ^ P\<rfloor>"
  from assms have xk: "x * 10 ^ P = of_int k" by (simp only: quantized_def k_def)
  have "quantize P x = of_int k / 10 ^ P"
    by (simp only: quantize_def xk round_half_even_of_int)
  also have "\<dots> = x * 10 ^ P / 10 ^ P" by (simp only: xk)
  also have "\<dots> = x" by simp
  finally show ?thesis .
qed

lemma quantized_quantize: "quantized P (quantize P x)"
  by (simp add: quantized_def quantize_def)

lemma quantized_abs:
  assumes "quantized P x"
  shows "of_int (round_half_even (\<bar>x\<bar> * 10 ^ P)) = \<bar>x\<bar> * 10 ^ P"
proof -
  define k where "k = \<lfloor>x * 10 ^ P\<rfloor>"
  from assms have xk: "x * 10 ^ P = of_int k" by (simp only: quantized_def k_def)
  have "\<bar>x\<bar> * 10 ^ P = \<bar>x * 10 ^ P\<bar>" by (simp add: abs_mult)
  also have "\<dots> = of_int \<bar>k\<bar>" by (simp only: xk of_int_abs)
  finally have eq: "\<bar>x\<bar> * 10 ^ P = of_int \<bar>k\<bar>" .
  show ?thesis by (simp only: eq round_half_even_of_int)
qed

lemma format_f_shape:
  "format_f P x =
     (if x < 0 then ''-'' else [])
     @ str_of_nat (nat (round_half_even (\<bar>x\<bar> * 10 ^ P)) div 10 ^ P)
     @ (if P = 0 then []
        else CHR ''.'' #
          (replicate (P - length (str_of_nat (nat (round_half_even (\<bar>x\<bar> * 10 ^ P)) mod 10 ^ P)))
             (CHR ''0'')
           @ str_of_nat (nat (round_half_even (\<bar>x\<bar> * 10 ^ P)) mod 10 ^ P)))"
  by (simp add: format_f_def Let_def)

lemma digits_then_rest_inj:
  assumes "str_of_nat a @ (if P = (0::nat) then [] else CHR ''.'' # replicate ka (CHR ''0'') @ str_of_nat c)
         = str_of_nat b @ (if P = 0 then [] else CHR ''.'' # replicate kb (CHR ''0'') @ str_of_nat d)"
  shows "a = b \<and> (0 < P \<longrightarrow> c = d)"
proof (cases "P = 0")
  case True
  with assms show ?thesis by (simp add: str_of_nat_inj)
next
  case False
  have "CHR ''.'' \<notin> set (str_of_nat a)" "CHR ''.'' \<notin> set (str_of_nat b)"
    using str_of_nat_chars by blast+
  with assms False have parts: "str_of_nat a = str_of_nat b
      \<and> replicate ka (CHR ''0'') @ str_of_nat c = replicate kb (CHR ''0'') @ str_of_nat d"
    using split_at_mark [of "CHR ''.''" "str_of_nat a" "str_of_nat b"] by simp
  then have "read_nat (replicate ka (CHR ''0'') @ str_of_nat c)
           = read_nat (replicate kb (CHR ''0'') @ str_of_nat d)" by simp
  then have "c = d" by (simp only: read_nat_padded read_nat_str_of_nat)
  with parts show ?thesis by (auto dest: str_of_nat_inj)
qed

lemma sign_then_digits:
  assumes "(if sx then ''-'' else []) @ str_of_nat a @ u = (if sy then ''-'' else []) @ str_of_nat b @ v"
  shows "sx = sy"
proof (rule ccontr)
  assume ne: "sx \<noteq> sy"
  have hd_a: "hd (str_of_nat a @ u) \<noteq> CHR ''-''" for a u
    using str_of_nat_nonempty [of a] str_of_nat_chars [of "hd (str_of_nat a)" a]
    by (cases "str_of_nat a") auto
  show False
  proof (cases sx)
    case True
    with ne assms have "CHR ''-'' # str_of_nat a @ u = str_of_nat b @ v" by simp
    then have "hd (str_of_nat b @ v) = CHR ''-''" by (metis list.sel(1))
    with hd_a show False by blast
  next
    case False
    with ne assms have "str_of_nat a @ u = CHR ''-'' # str_of_nat b @ v" by simp
    then have "hd (str_of_nat a @ u) = CHR ''-''" by (metis list.sel(1))
    with hd_a show False by blast
  qed
qed

lemma quantized_scaled:
  assumes "quantized P x"
  shows "of_nat (nat (round_half_even (\<bar>x\<bar> * 10 ^ P))) = \<bar>x\<bar> * 10 ^ P"
proof -
  have "(0::rat) \<le> \<bar>x\<bar> * 10 ^ P" by simp
  with quantized_abs [OF assms] have "(0::rat) \<le> of_int (round_half_even (\<bar>x\<bar> * 10 ^ P))"
    by (simp only:)
  then have "0 \<le> round_half_even (\<bar>x\<bar> * 10 ^ P)" by (simp only: of_int_0_le_iff)
  then have "rat_of_nat (nat (round_half_even (\<bar>x\<bar> * 10 ^ P)))
           = of_int (round_half_even (\<bar>x\<bar> * 10 ^ P))" by (rule of_nat_nat)
  with quantized_abs [OF assms] show ?thesis by (simp only:)
qed

lemma quantized_format_inj:
  assumes qx: "quantized P x" and qy: "quantized P y" and eq: "format_f P x = format_f P y"
  shows "x = y"
proof -
  define nx where "nx = nat (round_half_even (\<bar>x\<bar> * 10 ^ P))"
  define ny where "ny = nat (round_half_even (\<bar>y\<bar> * 10 ^ P))"
  define tx where "tx = (if P = 0 then []
        else CHR ''.'' # (replicate (P - length (str_of_nat (nx mod 10 ^ P))) (CHR ''0'')
           @ str_of_nat (nx mod 10 ^ P)))"
  define ty where "ty = (if P = 0 then []
        else CHR ''.'' # (replicate (P - length (str_of_nat (ny mod 10 ^ P))) (CHR ''0'')
           @ str_of_nat (ny mod 10 ^ P)))"
  have fx: "format_f P x = (if x < 0 then ''-'' else []) @ str_of_nat (nx div 10 ^ P) @ tx"
    by (simp only: format_f_shape nx_def tx_def)
  have fy: "format_f P y = (if y < 0 then ''-'' else []) @ str_of_nat (ny div 10 ^ P) @ ty"
    by (simp only: format_f_shape ny_def ty_def)
  from eq have E: "(if x < 0 then ''-'' else []) @ str_of_nat (nx div 10 ^ P) @ tx
                 = (if y < 0 then ''-'' else []) @ str_of_nat (ny div 10 ^ P) @ ty"
    by (simp only: fx fy)
  from sign_then_digits [OF E] have sg: "(x < 0) = (y < 0)" .
  with E have "str_of_nat (nx div 10 ^ P) @ tx = str_of_nat (ny div 10 ^ P) @ ty" by simp
  then have "str_of_nat (nx div 10 ^ P)
        @ (if P = 0 then [] else CHR ''.'' #
             replicate (P - length (str_of_nat (nx mod 10 ^ P))) (CHR ''0'')
             @ str_of_nat (nx mod 10 ^ P))
      = str_of_nat (ny div 10 ^ P)
        @ (if P = 0 then [] else CHR ''.'' #
             replicate (P - length (str_of_nat (ny mod 10 ^ P))) (CHR ''0'')
             @ str_of_nat (ny mod 10 ^ P))"
    by (simp only: tx_def ty_def)
  from digits_then_rest_inj [OF this]
  have d: "nx div 10 ^ P = ny div 10 ^ P" and m: "0 < P \<longrightarrow> nx mod 10 ^ P = ny mod 10 ^ P"
    by simp_all
  have n: "nx = ny"
  proof (cases "P = 0")
    case True
    with d show ?thesis by simp
  next
    case False
    with m have "nx mod 10 ^ P = ny mod 10 ^ P" by simp
    with d show ?thesis by (metis div_mult_mod_eq)
  qed
  have "\<bar>x\<bar> * 10 ^ P = rat_of_nat nx" "\<bar>y\<bar> * 10 ^ P = rat_of_nat ny"
    using quantized_scaled [OF qx] quantized_scaled [OF qy] by (simp_all only: nx_def ny_def)
  with n have "\<bar>x\<bar> * 10 ^ P = \<bar>y\<bar> * (10::rat) ^ P" by simp
  then have "\<bar>x\<bar> = \<bar>y\<bar>" by simp
  with sg show ?thesis by (auto simp add: abs_if split: if_splits)
qed

subsection \<open>L2: update replaces the level\<close>

text \<open>Case A: no level at the price.\<close>

lemma find_level_none: "\<forall>l\<in>set ls. \<not> holds_id i l \<Longrightarrow> find_level i ls = None"
  by (induction ls) simp_all


lemma set_insert_level: "set (insert_level rv nl ls) = insert nl (set ls)"
  by (induction ls) auto


lemma filter_others_absent:
  "p \<notin> level_price ` set ls \<Longrightarrow> filter (\<lambda>l. level_price l \<noteq> p) ls = ls"
  by (induction ls) auto






lemma L2_level_ok_single:
  assumes "L2_level_ok P l"
  shows "\<exists>x. orders l = [x] \<and> order_id x = format_f P (level_price l)"
proof (cases "orders l")
  case Nil
  with assms show ?thesis by (simp add: L2_level_ok_def)
next
  case (Cons x xs)
  with assms show ?thesis by (cases xs) (simp_all add: L2_level_ok_def)
qed

lemma L2_side_ok_levels:
  assumes ok: "L2_side_ok P ld"
    and unique: "\<forall>l\<in>set (levels ld). format_f P (level_price l) = format_f P p \<longrightarrow> level_price l = p"
  shows "distinct (map level_price (levels ld))"
    and "\<forall>l\<in>set (levels ld). level_price l \<noteq> p \<longrightarrow> \<not> holds_id (format_f P p) l"
    and "\<forall>l\<in>set (levels ld). level_price l = p \<longrightarrow> (\<exists>x. orders l = [x] \<and> order_id x = format_f P p)"
proof -
  from ok show "distinct (map level_price (levels ld))" by (simp add: L2_side_ok_def)
  from ok have each: "\<forall>l\<in>set (levels ld). \<exists>x. orders l = [x] \<and> order_id x = format_f P (level_price l)"
    by (simp add: L2_side_ok_def list_all_iff L2_level_ok_single)
  then show "\<forall>l\<in>set (levels ld). level_price l = p \<longrightarrow> (\<exists>x. orders l = [x] \<and> order_id x = format_f P p)"
    by auto
  show "\<forall>l\<in>set (levels ld). level_price l \<noteq> p \<longrightarrow> \<not> holds_id (format_f P p) l"
  proof (intro ballI impI notI)
    fix l assume l: "l \<in> set (levels ld)" and ne: "level_price l \<noteq> p" and h: "holds_id (format_f P p) l"
    from each l obtain x where "orders l = [x]" "order_id x = format_f P (level_price l)" by auto
    with h have "format_f P (level_price l) = format_f P p" by (simp add: holds_id_def)
    with unique l ne show False by simp
  qed
qed


text \<open>
  \<^verbatim>\<open>L2OrderBook.update\<close> on a side of the L2 structure is the replacement of a whole
  level: the level at the price goes, and a level holding the new order alone comes. The
  side has the L2 structure again.
\<close>

lemma delete_level_at_price:
  assumes "distinct (map level_price ls)"
    and "\<forall>l\<in>set ls. level_price l \<noteq> p \<longrightarrow> \<not> holds_id i l"
    and "\<forall>l\<in>set ls. level_price l = p \<longrightarrow> (\<exists>x. orders l = [x] \<and> order_id x = i)"
  shows "delete_from_levels i ls = filter (\<lambda>l. level_price l \<noteq> p) ls"
  using assms
proof (induction ls)
  case Nil
  then show ?case by simp
next
  case (Cons l ls)
  show ?case
  proof (cases "level_price l = p")
    case True
    with Cons.prems obtain x where x: "orders l = [x]" "order_id x = i" by auto
    from True Cons.prems(1) have "p \<notin> level_price ` set ls" by auto
    then have "filter (\<lambda>l. level_price l \<noteq> p) ls = ls" by (rule filter_others_absent)
    with True x show ?thesis by (simp add: holds_id_def)
  next
    case False
    with Cons.prems have "\<not> holds_id i l" by simp
    with False Cons show ?thesis by simp
  qed
qed

lemma distinct_insert_level:
  "distinct (map level_price ls) \<Longrightarrow> level_price nl \<notin> level_price ` set ls \<Longrightarrow>
     distinct (map level_price (insert_level rv nl ls))"
  by (induction ls) (auto simp add: set_insert_level)

lemma list_all_insert_level: "list_all Q (insert_level rv nl ls) = (Q nl \<and> list_all Q ls)"
  by (induction ls) auto

lemma Ladder_level_replacement:
  assumes ok: "L2_side_ok P ld"
    and unique: "\<forall>l\<in>set (levels ld). format_f P (level_price l) = format_f P p \<longrightarrow> level_price l = p"
    and q: "quantize (ladder_price_precision ld) p = p"
    and o: "order_id ord = format_f P p" "price ord = p"
  shows "levels (Ladder_update (if p \<in> Ladder_prices ld then Ladder_delete ld ord else ld) ord)
         = insert_level (reverse ld) \<lparr>level_price = p, orders = [Ladder_quantize ld ord]\<rparr>
             (filter (\<lambda>l. level_price l \<noteq> p) (levels ld))"
proof -
  let ?i = "format_f P p"
  let ?rest = "filter (\<lambda>l. level_price l \<noteq> p) (levels ld)"
  let ?ld = "if p \<in> Ladder_prices ld then Ladder_delete ld ord else ld"
  note facts = L2_side_ok_levels [OF ok unique]
  have deleted: "delete_from_levels ?i (levels ld) = ?rest"
    by (rule delete_level_at_price [OF facts])
  have absent: "p \<notin> Ladder_prices ld \<Longrightarrow> ?rest = levels ld"
    by (simp add: Ladder_prices_def filter_others_absent)
  have rest: "levels ?ld = ?rest"
    using deleted absent o by (simp add: Ladder_delete_def)
  have nobody: "\<forall>l\<in>set ?rest. \<not> holds_id ?i l"
    using facts(2) by simp
  have same: "Ladder_quantize ?ld ord = Ladder_quantize ld ord"
    "reverse ?ld = reverse ld"
    by (simp_all add: Ladder_quantize_def Ladder_delete_def)
  have pq: "price (Ladder_quantize ld ord) = p"
    using q o by (simp add: Ladder_quantize_def)
  have gone: "p \<notin> Ladder_prices ?ld"
    using rest by (auto simp add: Ladder_prices_def)
  have "find_level (order_id ord) (levels ?ld) = None"
    using find_level_none [OF nobody] rest o by simp
  then have "Ladder_update ?ld ord = Ladder_add ?ld ord"
    by (simp add: Ladder_update_def)
  then show ?thesis
    using gone same pq rest by (simp add: Ladder_add_def Let_def)
qed

lemma L2_side_ok_after_replacement:
  assumes ok: "L2_side_ok P ld" and o: "order_id x = format_f P p"
  shows "L2_side_ok P (ld\<lparr>levels := insert_level rv \<lparr>level_price = p, orders = [x]\<rparr>
                                   (filter (\<lambda>l. level_price l \<noteq> p) (levels ld))\<rparr>)"
proof -
  from ok have d: "distinct (map level_price (levels ld))"
    and each: "list_all (L2_level_ok P) (levels ld)"
    by (simp_all add: L2_side_ok_def)
  have "distinct (map level_price (filter (\<lambda>l. level_price l \<noteq> p) (levels ld)))"
    using d by (simp add: distinct_map_filter)
  then have "distinct (map level_price (insert_level rv \<lparr>level_price = p, orders = [x]\<rparr>
                                   (filter (\<lambda>l. level_price l \<noteq> p) (levels ld))))"
    by (rule distinct_insert_level) auto
  moreover have "list_all (L2_level_ok P) (filter (\<lambda>l. level_price l \<noteq> p) (levels ld))"
    using each by (simp add: list_all_iff)
  ultimately show ?thesis
    using o by (simp add: L2_side_ok_def list_all_insert_level L2_level_ok_def)
qed




lemma quantized_prices_unambiguous:
  assumes "prices_quantized P ld" and "quantized P p"
  shows "\<forall>l\<in>set (levels ld). format_f P (level_price l) = format_f P p \<longrightarrow> level_price l = p"
proof (intro ballI impI)
  fix l assume "l \<in> set (levels ld)" and same: "format_f P (level_price l) = format_f P p"
  with assms(1) have "quantized P (level_price l)"
    by (simp add: prices_quantized_def list_all_iff)
  from quantized_format_inj [OF this assms(2) same] show "level_price l = p" .
qed

lemma L2_update_is_level_replacement:
  assumes "precisions_agree b"
    and "L2_side_ok (price_precision b) (bids b)"
    and "prices_quantized (price_precision b) (bids b)"
    and "quantized (price_precision b) (price ord)"
    and "side ord = BUY"
  shows "levels (bids (L2OrderBook_update b ord))
         = insert_level (reverse (bids b))
             \<lparr>level_price = price ord,
              orders = [\<lparr>price = price ord, volume = quantize (size_precision b) (volume ord),
                         side = BUY, order_id = format_f (price_precision b) (price ord)\<rparr>]\<rparr>
             (filter (\<lambda>l. level_price l \<noteq> price ord) (levels (bids b)))"
    and "L2_side_ok (price_precision b) (bids (L2OrderBook_update b ord))"
    and "asks (L2OrderBook_update b ord) = asks b"
proof -
  let ?P = "price_precision b"
  let ?o = "L2OrderBook_p_process_order b ord"
  from assms(1) have pp: "ladder_price_precision (bids b) = ?P"
    and sp: "ladder_size_precision (bids b) = size_precision b"
    by (simp_all add: precisions_agree_def)
  from assms(4) have q: "quantize (ladder_price_precision (bids b)) (price ord) = price ord"
    by (simp add: pp quantize_quantized)
  have o: "order_id ?o = format_f ?P (price ord)" "price ?o = price ord"
    by (simp_all add: L2OrderBook_p_process_order_def)
  have stored: "Ladder_quantize (bids b) ?o
                = \<lparr>price = price ord, volume = quantize (size_precision b) (volume ord),
                   side = BUY, order_id = format_f ?P (price ord)\<rparr>"
    using q assms(5) by (simp add: Ladder_quantize_def sp L2OrderBook_p_process_order_def)
  have bids: "bids (L2OrderBook_update b ord)
              = Ladder_update (if price ord \<in> Ladder_prices (bids b)
                               then Ladder_delete (bids b) ?o else bids b) ?o"
    using assms(5)
    by (simp add: L2OrderBook_update_def L2OrderBook_p_remove_if_exists_def p_update_def
          p_delete_def L2OrderBook_p_process_order_def)
  note replaced = Ladder_level_replacement
      [OF assms(2) quantized_prices_unambiguous [OF assms(3) assms(4)] q o]
  show levels: "levels (bids (L2OrderBook_update b ord))
         = insert_level (reverse (bids b))
             \<lparr>level_price = price ord,
              orders = [\<lparr>price = price ord, volume = quantize (size_precision b) (volume ord),
                         side = BUY, order_id = format_f (price_precision b) (price ord)\<rparr>]\<rparr>
             (filter (\<lambda>l. level_price l \<noteq> price ord) (levels (bids b)))"
    using replaced by (simp only: bids stored)
  have "bids (L2OrderBook_update b ord)
        = (bids b)\<lparr>levels := levels (bids (L2OrderBook_update b ord))\<rparr>"
    by (simp add: bids Ladder_update_def Ladder_add_def Ladder_delete_def Let_def
          split: option.splits)
  with L2_side_ok_after_replacement [OF assms(2), of _ "price ord" "reverse (bids b)"] levels
  show "L2_side_ok (price_precision b) (bids (L2OrderBook_update b ord))"
    by simp
  show "asks (L2OrderBook_update b ord) = asks b"
    using assms(5)
    by (simp add: L2OrderBook_update_def L2OrderBook_p_remove_if_exists_def p_update_def
          p_delete_def L2OrderBook_p_process_order_def)
qed

text \<open>
  What every book has, whatever its level: its ladders carry its precisions, and a
  ladder that is written through \<^verbatim>\<open>add\<close>, \<^verbatim>\<open>update\<close> and \<^verbatim>\<open>delete\<close> only holds
  quantized prices (invariant I2).
\<close>

lemma Ladder_precisions_kept:
  "ladder_price_precision (Ladder_add ld ord) = ladder_price_precision ld"
  "ladder_size_precision (Ladder_add ld ord) = ladder_size_precision ld"
  "ladder_price_precision (Ladder_delete ld ord) = ladder_price_precision ld"
  "ladder_size_precision (Ladder_delete ld ord) = ladder_size_precision ld"
  "ladder_price_precision (Ladder_update ld ord) = ladder_price_precision ld"
  "ladder_size_precision (Ladder_update ld ord) = ladder_size_precision ld"
  by (simp_all add: Ladder_update_def Ladder_add_def Ladder_delete_def Let_def
        split: option.splits)

lemma created_precisions_agree:
  "OrderBook_create instrument lv = Inr b \<Longrightarrow> precisions_agree b"
  by (auto simp add: OrderBook_create_def OrderBook_init_def Ladder_init_def
        precisions_agree_def split: if_splits)

lemma p_ops_precisions_agree:
  assumes "precisions_agree b"
  shows "precisions_agree (p_add b ord)"
    and "precisions_agree (p_update b ord)"
    and "precisions_agree (p_delete b ord)"
    and "precisions_agree (OrderBook_clear_bids b)"
    and "precisions_agree (OrderBook_clear_asks b)"
  using assms
  by (simp_all add: precisions_agree_def p_add_def p_update_def p_delete_def
        OrderBook_clear_bids_def OrderBook_clear_asks_def Ladder_init_def
        Ladder_precisions_kept split: OrderSide.split)

lemma L2_ops_precisions_agree:
  assumes "precisions_agree b"
  shows "precisions_agree (L2OrderBook_add b ord)"
    and "precisions_agree (L2OrderBook_update b ord)"
    and "precisions_agree (L2OrderBook_delete b ord)"
  using assms
  by (simp_all add: L2OrderBook_add_def L2OrderBook_update_def L2OrderBook_delete_def
        L2OrderBook_p_remove_if_exists_def p_ops_precisions_agree)

lemma delete_from_levels_prices:
  "level_price ` set (delete_from_levels i ls) \<subseteq> level_price ` set ls"
  by (induction ls) auto

lemma add_at_price_prices: "level_price ` set (add_at_price x ls) = level_price ` set ls"
  by (induction ls) auto

lemma update_in_levels_prices: "level_price ` set (update_in_levels x ls) = level_price ` set ls"
  by (induction ls) auto

lemma prices_quantized_iff:
  "prices_quantized P ld \<longleftrightarrow> (\<forall>x \<in> level_price ` set (levels ld). quantized P x)"
  by (simp add: prices_quantized_def list_all_iff)

lemma Ladder_delete_prices_quantized:
  "prices_quantized P ld \<Longrightarrow> prices_quantized P (Ladder_delete ld ord)"
  using delete_from_levels_prices [of "order_id ord" "levels ld"]
  by (auto simp add: prices_quantized_iff Ladder_delete_def)

lemma Ladder_add_prices_quantized:
  assumes "prices_quantized (ladder_price_precision ld) ld"
  shows "prices_quantized (ladder_price_precision ld) (Ladder_add ld ord)"
proof (cases "price (Ladder_quantize ld ord) \<in> Ladder_prices ld")
  case True
  with assms show ?thesis
    by (simp add: prices_quantized_iff Ladder_add_def Let_def add_at_price_prices)
next
  case False
  with assms show ?thesis
    by (simp add: prices_quantized_iff Ladder_add_def Let_def set_insert_level
          Ladder_quantize_def quantized_quantize)
qed

lemma Ladder_update_prices_quantized:
  assumes "prices_quantized (ladder_price_precision ld) ld"
  shows "prices_quantized (ladder_price_precision ld) (Ladder_update ld ord)"
proof (cases "find_level (order_id ord) (levels ld)")
  case None
  with assms show ?thesis
    by (simp add: Ladder_update_def Ladder_add_prices_quantized)
next
  case (Some l)
  show ?thesis
  proof (cases "level_price l = price (Ladder_quantize ld ord)")
    case True
    with Some assms show ?thesis
      by (simp add: Ladder_update_def prices_quantized_iff update_in_levels_prices)
  next
    case False
    from assms have "prices_quantized (ladder_price_precision (Ladder_delete ld ord))
                       (Ladder_delete ld ord)"
      by (simp add: Ladder_precisions_kept Ladder_delete_prices_quantized)
    from Ladder_add_prices_quantized [OF this, of ord] Some False show ?thesis
      by (simp add: Ladder_update_def Ladder_precisions_kept)
  qed
qed


text \<open>
  The same book, and the same outcome, through \<^verbatim>\<open>apply_delta\<close>: three ADD deltas at
  100 and an UPDATE delta at 100, applied to a new L2 book.
\<close>

lemma L2_deltas_leave_two_orders:
  "apply_delta_one_by_one (example_book L2)
     [example_delta L2 ADD (example_order 100 1 BUY ''x'') 1,
      example_delta L2 ADD (example_order 100 2 BUY ''y'') 2,
      example_delta L2 ADD (example_order 100 5 BUY ''a'') 3,
      example_delta L2 UPDATE (example_order 100 7 BUY ''b'') 4]
   = Inr ((example_book L2)
       \<lparr>bids := (bids (example_book L2))
          \<lparr>levels := [\<lparr>level_price = 100,
                        orders = [example_order 100 7 BUY ''100.00'',
                                  example_order 100 5 BUY ''100.00'']\<rparr>]\<rparr>,
        last_update_timestamp_ns := 4\<rparr>)"
  by (simp add: apply_delta_def Condition_equal_def p_apply_delta_def example_delta_def
        book_eval L2OrderBook_add_def L2OrderBook_update_def L2OrderBook_p_process_order_def
        L2OrderBook_p_remove_if_exists_def format_eval)

text \<open>
  Nor does it hold of a price that is not quantized. \<^verbatim>\<open>_process_order\<close> formats the
  price 100.004 to the id \<^verbatim>\<open>100.00\<close> and the ladder stores the order at 100.00, in the
  level already there; \<^verbatim>\<open>_remove_if_exists\<close> looks for the price 100.004 among the
  prices of the ladder, finds none and deletes nothing; \<^verbatim>\<open>_update\<close> replaces one order
  of the level, which holds two afterwards. No level is at 100.004.
\<close>

lemma L2_update_at_unquantized_price_leaves_two_orders:
  "L2_side_ok 2 (bids (L2OrderBook_add (example_book L2) (example_order 100 1 BUY ''x'')))
   \<and> levels (bids (L2OrderBook_update
        (L2OrderBook_add (L2OrderBook_add (example_book L2) (example_order 100 1 BUY ''x''))
           (example_order (100004 / 1000) 5 BUY ''a''))
        (example_order (100004 / 1000) 7 BUY ''b'')))
      = [\<lparr>level_price = 100,
          orders = [example_order 100 7 BUY ''100.00'', example_order 100 5 BUY ''100.00'']\<rparr>]"
  by (simp add: book_eval L2OrderBook_add_def L2OrderBook_update_def
        L2OrderBook_p_process_order_def L2OrderBook_p_remove_if_exists_def
        L2_side_ok_def L2_level_ok_def format_eval floor_numeral_quotient)





subsection \<open>L1: update absorbs a crossed feed\<close>

lemma L1_update_buy_crossing:
  "side ord = BUY \<Longrightarrow> best_ask_price b = Some pa \<Longrightarrow> pa \<le> price ord \<Longrightarrow>
     L1OrderBook_update b ord = p_update (OrderBook_clear_asks b) (L1OrderBook_p_process_order ord)"
  by (auto simp add: L1OrderBook_update_def best_ask_level_def best_ask_price_def
        split: option.splits)

lemma L1_update_sell_crossing:
  "side ord = SELL \<Longrightarrow> best_bid_price b = Some pb \<Longrightarrow> price ord \<le> pb \<Longrightarrow>
     L1OrderBook_update b ord = p_update (OrderBook_clear_bids b) (L1OrderBook_p_process_order ord)"
  by (auto simp add: L1OrderBook_update_def best_bid_level_def best_bid_price_def
        split: option.splits)

lemma asks_after_buy_crossing:
  "side ord = BUY \<Longrightarrow>
     levels (asks (p_update (OrderBook_clear_asks b) (L1OrderBook_p_process_order ord))) = []"
  by (simp add: p_update_def OrderBook_clear_asks_def L1OrderBook_p_process_order_def
        Ladder_init_def)

lemma bids_after_sell_crossing:
  "side ord = SELL \<Longrightarrow>
     levels (bids (p_update (OrderBook_clear_bids b) (L1OrderBook_p_process_order ord))) = []"
  by (simp add: p_update_def OrderBook_clear_bids_def L1OrderBook_p_process_order_def
        Ladder_init_def)

text \<open>
  Updating a side that has the L1 structure leaves exactly the new order, as the ladder
  quantizes it.
\<close>

lemma L1_side_update:
  "L1_side_ok sd ld \<Longrightarrow> order_id ord = OrderSideParser_to_str sd \<Longrightarrow>
     levels (Ladder_update ld ord)
       = [\<lparr>level_price = price (Ladder_quantize ld ord), orders = [Ladder_quantize ld ord]\<rparr>]"
  by (auto simp add: L1_side_ok_def Ladder_update_def Ladder_add_def Ladder_delete_def
        Ladder_prices_def holds_id_def Ladder_quantize_def Let_def
        split: list.splits if_splits)

lemma L1_side_ok_length: "L1_side_ok sd ld \<Longrightarrow> length (levels ld) \<le> 1"
  by (auto simp add: L1_side_ok_def split: list.splits)

lemma L1_single_level_ok:
  "levels ld = [\<lparr>level_price = p, orders = [ord]\<rparr>] \<Longrightarrow>
   order_id ord = OrderSideParser_to_str sd \<Longrightarrow> L1_side_ok sd ld"
  by (simp add: L1_side_ok_def)

lemma L1_update_precisions:
  "precisions_agree b \<Longrightarrow> precisions_agree (L1OrderBook_update b ord)"
  by (simp add: L1OrderBook_update_def p_ops_precisions_agree)

lemma L1_update_buy:
  assumes ok: "L1_book_ok b" and sd: "side ord = BUY"
  shows "levels (bids (L1OrderBook_update b ord))
           = [\<lparr>level_price = quantize (ladder_price_precision (bids b)) (price ord),
               orders = [Ladder_quantize (bids b) (L1OrderBook_p_process_order ord)]\<rparr>]"
    and "L1_side_ok SELL (asks (L1OrderBook_update b ord))"
    and "quantize (ladder_price_precision (bids b)) (price ord) = price ord
           \<Longrightarrow> p_check_integrity (L1OrderBook_update b ord)"
proof -
  let ?o = "L1OrderBook_p_process_order ord"
  have id: "order_id ?o = OrderSideParser_to_str BUY" and pr: "price ?o = price ord"
    and sd': "side ?o = BUY"
    using sd by (simp_all add: L1OrderBook_p_process_order_def)
  from ok have bok: "L1_side_ok BUY (bids b)" and aok: "L1_side_ok SELL (asks b)"
    by (simp_all add: L1_book_ok_def)
  have upd: "levels (Ladder_update (bids b) ?o)
               = [\<lparr>level_price = quantize (ladder_price_precision (bids b)) (price ord),
                   orders = [Ladder_quantize (bids b) ?o]\<rparr>]"
    using L1_side_update [OF bok id] pr by (simp add: Ladder_quantize_def)
  show "levels (bids (L1OrderBook_update b ord))
           = [\<lparr>level_price = quantize (ladder_price_precision (bids b)) (price ord),
               orders = [Ladder_quantize (bids b) (L1OrderBook_p_process_order ord)]\<rparr>]"
    using upd sd sd' by (simp add: L1OrderBook_update_def p_update_def OrderBook_clear_asks_def)
  show "L1_side_ok SELL (asks (L1OrderBook_update b ord))"
    using aok sd sd'
    by (simp add: L1OrderBook_update_def p_update_def OrderBook_clear_asks_def
          L1_side_ok_def Ladder_init_def)
  show "p_check_integrity (L1OrderBook_update b ord)"
    if "quantize (ladder_price_precision (bids b)) (price ord) = price ord"
    using that upd sd sd'
    by (auto simp add: L1OrderBook_update_def p_update_def OrderBook_clear_asks_def
          p_check_integrity_def Ladder_top_def Ladder_init_def best_ask_level_def
          best_ask_price_def split: list.splits option.splits)
qed

lemma L1_update_sell:
  assumes ok: "L1_book_ok b" and sd: "side ord = SELL"
  shows "levels (asks (L1OrderBook_update b ord))
           = [\<lparr>level_price = quantize (ladder_price_precision (asks b)) (price ord),
               orders = [Ladder_quantize (asks b) (L1OrderBook_p_process_order ord)]\<rparr>]"
    and "L1_side_ok BUY (bids (L1OrderBook_update b ord))"
    and "quantize (ladder_price_precision (asks b)) (price ord) = price ord
           \<Longrightarrow> p_check_integrity (L1OrderBook_update b ord)"
proof -
  let ?o = "L1OrderBook_p_process_order ord"
  have id: "order_id ?o = OrderSideParser_to_str SELL" and pr: "price ?o = price ord"
    and sd': "side ?o = SELL"
    using sd by (simp_all add: L1OrderBook_p_process_order_def)
  from ok have bok: "L1_side_ok BUY (bids b)" and aok: "L1_side_ok SELL (asks b)"
    by (simp_all add: L1_book_ok_def)
  have upd: "levels (Ladder_update (asks b) ?o)
               = [\<lparr>level_price = quantize (ladder_price_precision (asks b)) (price ord),
                   orders = [Ladder_quantize (asks b) ?o]\<rparr>]"
    using L1_side_update [OF aok id] pr by (simp add: Ladder_quantize_def)
  show "levels (asks (L1OrderBook_update b ord))
           = [\<lparr>level_price = quantize (ladder_price_precision (asks b)) (price ord),
               orders = [Ladder_quantize (asks b) (L1OrderBook_p_process_order ord)]\<rparr>]"
    using upd sd sd' by (simp add: L1OrderBook_update_def p_update_def OrderBook_clear_bids_def)
  show "L1_side_ok BUY (bids (L1OrderBook_update b ord))"
    using bok sd sd'
    by (simp add: L1OrderBook_update_def p_update_def OrderBook_clear_bids_def
          L1_side_ok_def Ladder_init_def)
  show "p_check_integrity (L1OrderBook_update b ord)"
    if "quantize (ladder_price_precision (asks b)) (price ord) = price ord"
    using that upd sd sd'
    by (auto simp add: L1OrderBook_update_def p_update_def OrderBook_clear_bids_def
          p_check_integrity_def Ladder_top_def Ladder_init_def best_bid_level_def
          best_bid_price_def split: list.splits option.splits)
qed

lemma L1_update_keeps_structure:
  assumes ok: "L1_book_ok b"
  shows "L1_book_ok (L1OrderBook_update b ord)"
proof (cases "side ord")
  case BUY
  have "order_id (Ladder_quantize (bids b) (L1OrderBook_p_process_order ord))
          = OrderSideParser_to_str BUY"
    using BUY by (simp add: L1OrderBook_p_process_order_def Ladder_quantize_def)
  with L1_update_buy(1,2) [OF ok BUY] show ?thesis
    by (simp add: L1_book_ok_def L1_single_level_ok)
next
  case SELL
  have "order_id (Ladder_quantize (asks b) (L1OrderBook_p_process_order ord))
          = OrderSideParser_to_str SELL"
    using SELL by (simp add: L1OrderBook_p_process_order_def Ladder_quantize_def)
  with L1_update_sell(1,2) [OF ok SELL] show ?thesis
    by (simp add: L1_book_ok_def L1_single_level_ok)
qed

lemma L1_update_not_crossed:
  assumes ok: "L1_book_ok b" and agree: "precisions_agree b"
    and q: "quantized (price_precision b) (price ord)"
  shows "p_check_integrity (L1OrderBook_update b ord)"
    and "L1OrderBook_check_integrity (L1OrderBook_update b ord)"
proof -
  from agree q have qb: "quantize (ladder_price_precision (bids b)) (price ord) = price ord"
    and qa: "quantize (ladder_price_precision (asks b)) (price ord) = price ord"
    by (simp_all add: precisions_agree_def quantize_quantized)
  show nc: "p_check_integrity (L1OrderBook_update b ord)"
  proof (cases "side ord")
    case BUY
    from L1_update_buy(3) [OF ok BUY qb] show ?thesis .
  next
    case SELL
    from L1_update_sell(3) [OF ok SELL qa] show ?thesis .
  qed
  from L1_update_keeps_structure [OF ok, of ord]
  have "L1_side_ok BUY (bids (L1OrderBook_update b ord))"
    and "L1_side_ok SELL (asks (L1OrderBook_update b ord))"
    by (simp_all add: L1_book_ok_def)
  with nc L1_side_ok_length [of BUY "bids (L1OrderBook_update b ord)"]
    L1_side_ok_length [of SELL "asks (L1OrderBook_update b ord)"]
  show "L1OrderBook_check_integrity (L1OrderBook_update b ord)"
    by (simp add: L1OrderBook_check_integrity_def)
qed

lemma L1_created_book_ok:
  "OrderBook_create instrument L1 = Inr b \<Longrightarrow> L1_book_ok b \<and> precisions_agree b"
  by (auto simp add: OrderBook_create_def OrderBook_init_def L1_book_ok_def L1_side_ok_def
        Ladder_init_def precisions_agree_def split: if_splits)

lemmas L1_eval = L1OrderBook_update_def L1OrderBook_p_process_order_def OrderSideParser_to_str_def
  OrderBook_clear_asks_def OrderBook_clear_bids_def best_ask_level_def best_bid_level_def
  best_ask_price_def best_bid_price_def L1_book_ok_def L1_side_ok_def
  L1OrderBook_check_integrity_def p_check_integrity_def precisions_agree_def quantized_def

text \<open>
  The original claim C5 does not hold of every L1 update: its last part fails. An L1
  book with two price decimals holds an ask at 100.00 and no bid; it has the L1
  structure and is not crossed. \<^verbatim>\<open>update\<close> with a BUY order at 99.996 compares
  \<^verbatim>\<open>order.price >= self.best_ask_price()\<close>, which is false, so the asks stay; the
  ladder quantizes the price to 100.00. The best bid and the best ask are both 100.00
  afterwards: the book is crossed, \<^verbatim>\<open>best_bid < best_ask\<close> fails.
\<close>

theorem L1_update_rounds_into_the_ask:
  "L1_book_ok example_asked_book
   \<and> precisions_agree example_asked_book
   \<and> p_check_integrity example_asked_book
   \<and> price_precision example_asked_book = 2
   \<and> best_ask_price example_asked_book = Some 100
   \<and> price (example_order (99996 / 1000) 1 BUY ''b'') < 100
   \<and> best_bid_price (L1OrderBook_update example_asked_book
                       (example_order (99996 / 1000) 1 BUY ''b'')) = Some 100
   \<and> best_ask_price (L1OrderBook_update example_asked_book
                       (example_order (99996 / 1000) 1 BUY ''b'')) = Some 100
   \<and> \<not> p_check_integrity (L1OrderBook_update example_asked_book
                             (example_order (99996 / 1000) 1 BUY ''b''))"
  by (simp add: example_asked_book_def book_eval L1_eval)

text \<open>
  Claim C5, as it holds. \<^verbatim>\<open>L1OrderBook.update\<close> with a BUY order priced at or above
  the best ask clears the ask side and then updates the bids: the result is the update
  of the book with its asks cleared, and its ask side is empty. With a SELL order priced
  at or below the best bid it clears the bid side in the same way. This holds of every
  book. A book with the L1 structure (each side at most one level, holding one order
  named after the side) whose ladders carry its precisions, which is every book made by
  \<^verbatim>\<open>create\<close> and changed by \<^verbatim>\<open>update\<close> alone, is such a book again after
  \<^verbatim>\<open>update\<close>; and when the price of the order is quantized to the book's price
  precision it is not crossed after \<^verbatim>\<open>update\<close>: \<^verbatim>\<open>_check_integrity\<close> and the L1
  \<^verbatim>\<open>check_integrity\<close> pass.
\<close>

theorem L1_update_absorbs_crossed_feed:
  "(side ord = BUY \<and> best_ask_price b = Some pa \<and> pa \<le> price ord \<longrightarrow>
      L1OrderBook_update b ord
        = p_update (OrderBook_clear_asks b) (L1OrderBook_p_process_order ord)
      \<and> levels (asks (L1OrderBook_update b ord)) = [])
   \<and> (side ord = SELL \<and> best_bid_price b = Some pb \<and> price ord \<le> pb \<longrightarrow>
      L1OrderBook_update b ord
        = p_update (OrderBook_clear_bids b) (L1OrderBook_p_process_order ord)
      \<and> levels (bids (L1OrderBook_update b ord)) = [])
   \<and> (L1_book_ok b \<and> precisions_agree b \<longrightarrow>
      L1_book_ok (L1OrderBook_update b ord) \<and> precisions_agree (L1OrderBook_update b ord))
   \<and> (L1_book_ok b \<and> precisions_agree b \<and> quantized (price_precision b) (price ord) \<longrightarrow>
      L1OrderBook_check_integrity (L1OrderBook_update b ord)
      \<and> p_check_integrity (L1OrderBook_update b ord))"
  using L1_update_buy_crossing [of ord b pa] L1_update_sell_crossing [of ord b pb]
    asks_after_buy_crossing [of ord b] bids_after_sell_crossing [of ord b]
    L1_update_keeps_structure [of b ord] L1_update_precisions [of b ord]
    L1_update_not_crossed [of b ord]
  by simp

theorem L1_update_absorbs_crossed_feed_witness:
  "side (example_order 100 2 SELL ''y'') = SELL
   \<and> best_bid_price (L1OrderBook_update (example_book L1) (example_order 101 1 BUY ''x'')) = Some 101
   \<and> price (example_order 100 2 SELL ''y'') \<le> 101
   \<and> levels (bids (L1OrderBook_update
                     (L1OrderBook_update (example_book L1) (example_order 101 1 BUY ''x''))
                     (example_order 100 2 SELL ''y''))) = []
   \<and> best_ask_price (L1OrderBook_update
                     (L1OrderBook_update (example_book L1) (example_order 101 1 BUY ''x''))
                     (example_order 100 2 SELL ''y'')) = Some 100
   \<and> side (example_order 100 3 BUY ''z'') = BUY
   \<and> levels (asks (L1OrderBook_update
                     (L1OrderBook_update
                        (L1OrderBook_update (example_book L1) (example_order 101 1 BUY ''x''))
                        (example_order 100 2 SELL ''y''))
                     (example_order 100 3 BUY ''z''))) = []
   \<and> L1_book_ok (L1OrderBook_update (example_book L1) (example_order 101 1 BUY ''x''))
   \<and> precisions_agree (L1OrderBook_update (example_book L1) (example_order 101 1 BUY ''x''))
   \<and> quantized
        (price_precision (L1OrderBook_update (example_book L1) (example_order 101 1 BUY ''x'')))
        (price (example_order 100 2 SELL ''y''))
   \<and> L1OrderBook_check_integrity
        (L1OrderBook_update
           (L1OrderBook_update (example_book L1) (example_order 101 1 BUY ''x''))
           (example_order 100 2 SELL ''y''))"
  using L1_update_absorbs_crossed_feed
          [of "example_order 100 2 SELL ''y''"
              "L1OrderBook_update (example_book L1) (example_order 101 1 BUY ''x'')" _ 101]
        L1_update_absorbs_crossed_feed
          [of "example_order 100 3 BUY ''z''"
              "L1OrderBook_update
                 (L1OrderBook_update (example_book L1) (example_order 101 1 BUY ''x''))
                 (example_order 100 2 SELL ''y'')" 100]
  by (simp add: book_eval L1_eval)

section \<open>Properties of the L1 top of book\<close>

lemmas store_eval = update_top_def p_update_quote_tick_def p_update_trade_tick_def
  p_update_bid_def p_update_ask_def store_add_def top_addr_def order_price_at_def
  level_price_at_def crossing_def L1OrderBook_init_def L1OrderBook_p_process_order_def
  OrderSideParser_to_str_def store_best_bid_price_def store_best_ask_price_def Let_def
  store_quantize_def quantize_eval
  example_quoted_book_def example_sell_tick_def example_buy_tick_def

text \<open>
  With both tops cached, a trade tick writes the aggressor's side only: the cached order
  and level of the other side, and the cache entries themselves, are what they were.
\<close>

lemma sell_tick_never_writes_the_ask:
  "top_bid s = Some rb \<Longrightarrow> top_bid_level s = Some lb \<Longrightarrow> top_ask s = Some ra \<Longrightarrow>
   top_ask_level s = Some la \<Longrightarrow> ra \<noteq> rb \<Longrightarrow> la \<noteq> lb \<Longrightarrow>
   aggressor_side t = AggressorSide_SELL \<Longrightarrow>
     order_store (p_update_trade_tick s t) ra = order_store s ra
     \<and> level_store (p_update_trade_tick s t) la = level_store s la
     \<and> top_ask (p_update_trade_tick s t) = Some ra
     \<and> top_ask_level (p_update_trade_tick s t) = Some la"
  by (simp add: p_update_trade_tick_def p_update_bid_def Let_def)

lemma buy_tick_never_writes_the_bid:
  "top_bid s = Some rb \<Longrightarrow> top_bid_level s = Some lb \<Longrightarrow> top_ask s = Some ra \<Longrightarrow>
   top_ask_level s = Some la \<Longrightarrow> ra \<noteq> rb \<Longrightarrow> la \<noteq> lb \<Longrightarrow>
   aggressor_side t = AggressorSide_BUY \<Longrightarrow>
     order_store (p_update_trade_tick s t) rb = order_store s rb
     \<and> level_store (p_update_trade_tick s t) lb = level_store s lb
     \<and> top_bid (p_update_trade_tick s t) = Some rb
     \<and> top_bid_level (p_update_trade_tick s t) = Some lb"
  by (simp add: p_update_trade_tick_def p_update_ask_def Let_def)

text \<open>
  Claim C2 does not hold of the code. An L1 book has cached a bid at 100 and an ask at
  101. A trade tick with a SELL aggressor at 102 moves the cached bid to 102 and leaves
  the cached ask, its level and the best ask of the ladder at 101, below the bid: nothing
  is assigned to the ask. A trade tick with a BUY aggressor at 99 moves the ask to 99
  and leaves the bid at 100 in the same way.
\<close>

theorem trade_tick_leaves_other_side_behind:
  "order_price_at example_quoted_book (top_bid example_quoted_book) = Some 100
   \<and> order_price_at example_quoted_book (top_ask example_quoted_book) = Some 101
   \<and> order_price_at (update_top example_quoted_book example_sell_tick)
        (top_bid (update_top example_quoted_book example_sell_tick)) = Some 102
   \<and> order_price_at (update_top example_quoted_book example_sell_tick)
        (top_ask (update_top example_quoted_book example_sell_tick)) = Some 101
   \<and> level_price_at (update_top example_quoted_book example_sell_tick)
        (top_ask_level (update_top example_quoted_book example_sell_tick)) = Some 101
   \<and> store_best_bid_price (update_top example_quoted_book example_sell_tick) = Some 102
   \<and> store_best_ask_price (update_top example_quoted_book example_sell_tick) = Some 101
   \<and> order_price_at (update_top example_quoted_book example_buy_tick)
        (top_ask (update_top example_quoted_book example_buy_tick)) = Some 99
   \<and> order_price_at (update_top example_quoted_book example_buy_tick)
        (top_bid (update_top example_quoted_book example_buy_tick)) = Some 100
   \<and> level_price_at (update_top example_quoted_book example_buy_tick)
        (top_bid_level (update_top example_quoted_book example_buy_tick)) = Some 100
   \<and> store_best_bid_price (update_top example_quoted_book example_buy_tick) = Some 100
   \<and> store_best_ask_price (update_top example_quoted_book example_buy_tick) = Some 99"
  by (simp add: store_eval)

text \<open>
  With a book that is written through \<^verbatim>\<open>update\<close> and through \<^verbatim>\<open>update_top\<close>, the
  last part of claim C5 fails for quantized prices too. \<^verbatim>\<open>update\<close> with a SELL order at
  101 on the new book makes an ask level that the cache does not know; the first quote,
  98 / 99, finds no cached ask and adds a second ask level, at 99, the top one; the
  second quote, 110 / 120, overwrites the prices of the cached levels and orders in
  place. The asks are then the level at 120 followed by the level at 101, the bid is at
  110 and \<^verbatim>\<open>_check_integrity\<close> passes, for the top ask level is the one at 120.
  \<^verbatim>\<open>update\<close> with a SELL order at 115 does not cross the bid, so the bids stay; the
  ladder finds the order named \<^verbatim>\<open>SELL\<close> in the level at 120, deletes it and the level
  with it, and adds the order at 115 behind the level at 101. The best bid is 110 and
  the best ask 101 afterwards: the book is crossed.
\<close>

theorem L1_update_after_ticks_leaves_cross:
  "shown_levels example_updated_then_quoted_book (bid_levels example_updated_then_quoted_book)
     = [(110, [110])]
   \<and> shown_levels example_updated_then_quoted_book (ask_levels example_updated_then_quoted_book)
     = [(120, [120]), (101, [101])]
   \<and> store_best_bid_price example_updated_then_quoted_book = Some 110
   \<and> store_best_ask_price example_updated_then_quoted_book = Some 120
   \<and> shown_levels (store_update example_updated_then_quoted_book (example_order 115 1 SELL ''c''))
        (ask_levels (store_update example_updated_then_quoted_book (example_order 115 1 SELL ''c'')))
     = [(101, [101]), (115, [115])]
   \<and> store_best_bid_price
        (store_update example_updated_then_quoted_book (example_order 115 1 SELL ''c'')) = Some 110
   \<and> store_best_ask_price
        (store_update example_updated_then_quoted_book (example_order 115 1 SELL ''c'')) = Some 101"
  by (simp add: example_updated_then_quoted_book_def store_eval store_update_def
        store_ladder_update_def store_delete_def side_levels_def order_id_at_def
        shown_levels_def List.map_filter_def example_order_def)

end
